theory Spec2Isabelle
  imports Main "HOL-Library.Word" "HOL-Library.Monad_Syntax"
begin

unbundle bit_operations_syntax

section \<open>The cycle-stepped NMOS 6502 core (class M6502)\<close>

text \<open>
  The class \<^verbatim>\<open>M6502\<close> is declared, with most of its per-cycle functions defined inline,
  in the second document of \<^verbatim>\<open>src/src/1541/SSD1306.h\<close> (the header \<^verbatim>\<open>m6502.h\<close>). The header
  is compiled with \<^verbatim>\<open>SUPPORT_IRQ\<close> defined and with \<^verbatim>\<open>SUPPORT_NMI\<close> and
  \<^verbatim>\<open>SUPPORT_RDY_HALTING\<close> left undefined, so \<^verbatim>\<open>BUS_READ\<close> is the host's read callback
  itself and there is neither an NMI line nor an RDY line in the object.
\<close>

subsection \<open>Data\<close>

type_synonym u8 = "8 word"
type_synonym u16 = "16 word"

text \<open>One call of a bus callback, as the host observes it.\<close>

datatype bus_event = BusRead u16 | BusWrite u16 u8

text \<open>
  Pointers to member functions. \<^verbatim>\<open>&M6502::zp_2_1_T2\<close> is \<open>Stage zp_2_1 T2\<close>: the address
  mode's chain and the T-stage within it. \<^verbatim>\<open>&M6502::InstructionFetch\<close> and
  \<^verbatim>\<open>&M6502::InstructionFetchIRQ\<close> have constructors of their own.
\<close>

datatype (plugins del: code "quickcheck" size transfer lifting) amode =
    sb_1 | sb_jam | imm_2_1 | rel_5_8 | zp_2_1 | zp_3_1 | abs_2_3 | abs_3_2
  | idx_2_4 | idx_3_3 | idx_Undoc | absx_2_5 | absx_3_4 | absy_2_5 | absy_3_4
  | zpx_2_6 | zpx_3_5 | zpy_2_6 | zpy_3_5 | idy_2_7 | idy_3_6 | idy_Undoc
  | zp_4_1 | abs_4_2 | zpx_4_3 | absx_4_4 | absy_4_4 | ph_5_1 | pl_5_2
  | jsr_5_3 | rti_5_5 | abs5_6_1 | abs5_6_2 | rts_5_7 | brk_5_4
  | Reset_seq | IRQ_seq

datatype tstage = T0 | T1 | T2 | T3 | T4 | T5 | T6 | T7

datatype AddressModeCycleFunction =
    Stage amode tstage
  | PtrInstructionFetch
  | PtrInstructionFetchIRQ

datatype (plugins del: code "quickcheck" size transfer lifting) OpcodeCycleFunction =
    OP_ADC | OP_ANC | OP_AND | OP_ASL | OP_BCC | OP_BCS | OP_BEQ | OP_BIT
  | OP_BMI | OP_BNE | OP_BPL | OP_BVC | OP_BVS | OP_BRK | OP_CLC | OP_CLD
  | OP_CLI | OP_CLV | OP_CMP | OP_CPX | OP_CPY | OP_DEC | OP_DEX | OP_DEY
  | OP_EOR | OP_INC | OP_INX | OP_INY | OP_JAM | OP_JMP | OP_JSR | OP_LDA
  | OP_LDX | OP_LDY | OP_LSR | OP_NOP | OP_ORA | OP_PHA | OP_PHP | OP_PLA
  | OP_PLP | OP_ROL | OP_ROR | OP_RTI | OP_RTS | OP_SBC | OP_SEC | OP_SED
  | OP_SEI | OP_STA | OP_STX | OP_STY | OP_TAX | OP_TAY | OP_TSX | OP_TXA
  | OP_TXS | OP_TYA
  | OP_ASR | OP_LXA | OP_ARR | OP_LAX | OP_LAS | OP_SAX | OP_SBX | OP_SHA
  | OP_SHY | OP_DCP | OP_ISB | OP_SLO | OP_RLA | OP_SRE | OP_RRA | OP_SHS
  | OP_SHX | OP_XAA

text \<open>
  The host's callbacks. The C type \<^verbatim>\<open>uint8_t(*)(uint16_t)\<close> is a function that may have any
  effect on the host: here it maps the host's state \<open>'h\<close> to the byte and the new host state.
  A null pointer is \<open>None\<close>.
\<close>

type_synonym 'h DataBusReadFn = "u16 \<Rightarrow> 'h \<Rightarrow> u8 \<times> 'h"
type_synonym 'h DataBusWriteFn = "u16 \<Rightarrow> u8 \<Rightarrow> 'h \<Rightarrow> 'h"

text \<open>
  The object. \<open>ea\<close> is the union of \<^verbatim>\<open>ea\<close> and \<^verbatim>\<open>ra\<close>, \<open>ia\<close> the union of \<^verbatim>\<open>ia\<close> and
  \<^verbatim>\<open>oldpc\<close>; \<open>value16\<close> is the member \<^verbatim>\<open>value\<close>; \<open>IRQ\<close> is the \<^verbatim>\<open>asserted\<close> flag of the
  member \<^verbatim>\<open>Interrupt IRQ\<close>. Two fields are not members of the class: \<open>host\<close>, the state of
  whatever the callbacks talk to, and \<open>trace\<close>, the callbacks invoked so far, oldest first.
\<close>

record 'h M6502 =
  ea :: u16
  ia :: u16
  value16 :: u16
  pc :: u16
  opcode :: u8
  a :: u8
  x :: u8
  y :: u8
  status :: u8
  sp :: u8
  CLIMaskingInterrupt :: bool
  BranchTakenMaskingInterrupt :: bool
  IRQPending :: bool
  dataBusReadFn :: "'h DataBusReadFn option"
  dataBusWriteFn :: "'h DataBusWriteFn option"
  addressModeCycleFn :: AddressModeCycleFunction
  opcodeCycleFn :: OpcodeCycleFunction
  IRQ :: bool
  host :: 'h
  trace :: "bus_event list"

abbreviation (input) FLAG_CARRY :: u8 where "FLAG_CARRY \<equiv> 0x01"
abbreviation (input) FLAG_ZERO :: u8 where "FLAG_ZERO \<equiv> 0x02"
abbreviation (input) FLAG_INTERRUPT :: u8 where "FLAG_INTERRUPT \<equiv> 0x04"
abbreviation (input) FLAG_DECIMAL :: u8 where "FLAG_DECIMAL \<equiv> 0x08"
abbreviation (input) FLAG_BREAK :: u8 where "FLAG_BREAK \<equiv> 0x10"
abbreviation (input) FLAG_CONSTANT :: u8 where "FLAG_CONSTANT \<equiv> 0x20"
abbreviation (input) FLAG_OVERFLOW :: u8 where "FLAG_OVERFLOW \<equiv> 0x40"
abbreviation (input) FLAG_SIGN :: u8 where "FLAG_SIGN \<equiv> 0x80"

abbreviation (input) XAA_MAGIC :: u8 where "XAA_MAGIC \<equiv> 0xee"
abbreviation (input) LXA_MAGIC :: u8 where "LXA_MAGIC \<equiv> 0xee"

subsection \<open>Bus access\<close>

text \<open>
  Calling a callback runs it on the host and is recorded in the trace. Calling a null
  pointer has no defined behaviour in C++: the model returns \<open>None\<close>.
\<close>

definition BUS_READ :: "u16 \<Rightarrow> 'h M6502 \<Rightarrow> (u8 \<times> 'h M6502) option" where
  "BUS_READ addr s =
     (case dataBusReadFn s of
        None \<Rightarrow> None
      | Some f \<Rightarrow> Some (fst (f addr (host s)),
                       s\<lparr>host := snd (f addr (host s)), trace := trace s @ [BusRead addr]\<rparr>))"

definition BUS_WRITE :: "u16 \<Rightarrow> u8 \<Rightarrow> 'h M6502 \<Rightarrow> 'h M6502 option" where
  "BUS_WRITE addr byte s =
     (case dataBusWriteFn s of
        None \<Rightarrow> None
      | Some f \<Rightarrow> Some (s\<lparr>host := f addr byte (host s), trace := trace s @ [BusWrite addr byte]\<rparr>))"

text \<open>\<^verbatim>\<open>Push\<close>: the address is \<^verbatim>\<open>0x100 + sp\<close> with the old \<^verbatim>\<open>sp\<close>, which then wraps as a byte.\<close>

definition Push :: "u8 \<Rightarrow> 'h M6502 \<Rightarrow> 'h M6502 option" where
  "Push byte s = do {
     s \<leftarrow> BUS_WRITE (0x100 + ucast (sp s)) byte s;
     Some (s\<lparr>sp := sp s - 1\<rparr>) }"

text \<open>\<^verbatim>\<open>Pull\<close>: \<^verbatim>\<open>sp\<close> is incremented as a byte first, then \<^verbatim>\<open>0x100 + sp\<close> is read.\<close>

definition Pull :: "'h M6502 \<Rightarrow> (u8 \<times> 'h M6502) option" where
  "Pull s = BUS_READ (0x100 + ucast (sp s + 1)) (s\<lparr>sp := sp s + 1\<rparr>)"

definition WriteValue :: "u8 \<Rightarrow> 'h M6502 \<Rightarrow> 'h M6502 option" where
  "WriteValue byte s =
     (if addressModeCycleFn s = Stage sb_1 T1 then Some (s\<lparr>a := byte\<rparr>)
      else BUS_WRITE (ea s) byte s)"

subsection \<open>Flag helpers\<close>

definition ClearB :: "'h M6502 \<Rightarrow> 'h M6502" where
  "ClearB s = s\<lparr>status := status s AND NOT FLAG_BREAK\<rparr>"
definition SetB :: "'h M6502 \<Rightarrow> 'h M6502" where
  "SetB s = s\<lparr>status := status s OR FLAG_BREAK\<rparr>"
definition ClearC :: "'h M6502 \<Rightarrow> 'h M6502" where
  "ClearC s = s\<lparr>status := status s AND NOT FLAG_CARRY\<rparr>"
definition SetC :: "'h M6502 \<Rightarrow> 'h M6502" where
  "SetC s = s\<lparr>status := status s OR FLAG_CARRY\<rparr>"
definition SetC_test :: "u16 \<Rightarrow> 'h M6502 \<Rightarrow> 'h M6502" where
  "SetC_test test s = (if test \<noteq> 0 then SetC s else ClearC s)"
definition ClearZ :: "'h M6502 \<Rightarrow> 'h M6502" where
  "ClearZ s = s\<lparr>status := status s AND NOT FLAG_ZERO\<rparr>"
definition SetZ :: "'h M6502 \<Rightarrow> 'h M6502" where
  "SetZ s = s\<lparr>status := status s OR FLAG_ZERO\<rparr>"
definition SetZ_test :: "u16 \<Rightarrow> 'h M6502 \<Rightarrow> 'h M6502" where
  "SetZ_test test s = (if test \<noteq> 0 then SetZ s else ClearZ s)"
definition ClearI :: "'h M6502 \<Rightarrow> 'h M6502" where
  "ClearI s = s\<lparr>status := status s AND NOT FLAG_INTERRUPT\<rparr>"
definition SetI :: "'h M6502 \<Rightarrow> 'h M6502" where
  "SetI s = s\<lparr>status := status s OR FLAG_INTERRUPT\<rparr>"
definition ClearD :: "'h M6502 \<Rightarrow> 'h M6502" where
  "ClearD s = s\<lparr>status := status s AND NOT FLAG_DECIMAL\<rparr>"
definition SetD :: "'h M6502 \<Rightarrow> 'h M6502" where
  "SetD s = s\<lparr>status := status s OR FLAG_DECIMAL\<rparr>"
definition ClearV :: "'h M6502 \<Rightarrow> 'h M6502" where
  "ClearV s = s\<lparr>status := status s AND NOT FLAG_OVERFLOW\<rparr>"
definition SetV :: "'h M6502 \<Rightarrow> 'h M6502" where
  "SetV s = s\<lparr>status := status s OR FLAG_OVERFLOW\<rparr>"
definition SetV_test :: "u16 \<Rightarrow> 'h M6502 \<Rightarrow> 'h M6502" where
  "SetV_test test s = (if test \<noteq> 0 then SetV s else ClearV s)"
definition ClearN :: "'h M6502 \<Rightarrow> 'h M6502" where
  "ClearN s = s\<lparr>status := status s AND NOT FLAG_SIGN\<rparr>"
definition SetN :: "'h M6502 \<Rightarrow> 'h M6502" where
  "SetN s = s\<lparr>status := status s OR FLAG_SIGN\<rparr>"
definition SetN_test :: "u16 \<Rightarrow> 'h M6502 \<Rightarrow> 'h M6502" where
  "SetN_test test s = (if test \<noteq> 0 then SetN s else ClearN s)"

definition EstablishZ :: "u16 \<Rightarrow> 'h M6502 \<Rightarrow> 'h M6502" where
  "EstablishZ v s = SetZ_test (of_bool (v AND 0x00FF = 0)) s"
definition EstablishN :: "u16 \<Rightarrow> 'h M6502 \<Rightarrow> 'h M6502" where
  "EstablishN v s = SetN_test (v AND 0x0080) s"
definition EstablishC :: "u16 \<Rightarrow> 'h M6502 \<Rightarrow> 'h M6502" where
  "EstablishC v s = SetC_test (v AND 0xFF00) s"
definition EstablishNZ :: "u16 \<Rightarrow> 'h M6502 \<Rightarrow> 'h M6502" where
  "EstablishNZ v s = EstablishN v (EstablishZ v s)"

subsection \<open>What \<^verbatim>\<open>m6502.cpp\<close> supplies\<close>

text \<open>
  Modelled from the spec: the header declares the static tables
  \<^verbatim>\<open>T1AddressModeFunctions[256]\<close> and \<^verbatim>\<open>opcodeFunctions[256]\<close> and the opcode functions
  \<^verbatim>\<open>ADC\<close>, \<^verbatim>\<open>SBC\<close> and \<^verbatim>\<open>ARR\<close>, whose definitions are in \<^verbatim>\<open>m6502.cpp\<close>, which is not among
  the sources. They are parameters of the model. The spec (sections 2 and 4.4) makes an
  opcode function "pure register/flag math", so the three arithmetic opcodes are
  functions from \<open>(a, status, value)\<close> to the new \<open>(a, status)\<close>.
\<close>

record M6502_cpp =
  T1AddressModeFunctions :: "u8 \<Rightarrow> AddressModeCycleFunction"
  opcodeFunctions :: "u8 \<Rightarrow> OpcodeCycleFunction"
  ADC_fn :: "u8 \<times> u8 \<times> u16 \<Rightarrow> u8 \<times> u8"
  SBC_fn :: "u8 \<times> u8 \<times> u16 \<Rightarrow> u8 \<times> u8"
  ARR_fn :: "u8 \<times> u8 \<times> u16 \<Rightarrow> u8 \<times> u8"

definition ADC :: "M6502_cpp \<Rightarrow> 'h M6502 \<Rightarrow> 'h M6502" where
  "ADC X s = s\<lparr>a := fst (ADC_fn X (a s, status s, value16 s)),
               status := snd (ADC_fn X (a s, status s, value16 s))\<rparr>"
definition SBC :: "M6502_cpp \<Rightarrow> 'h M6502 \<Rightarrow> 'h M6502" where
  "SBC X s = s\<lparr>a := fst (SBC_fn X (a s, status s, value16 s)),
               status := snd (SBC_fn X (a s, status s, value16 s))\<rparr>"
definition ARR :: "M6502_cpp \<Rightarrow> 'h M6502 \<Rightarrow> 'h M6502" where
  "ARR X s = s\<lparr>a := fst (ARR_fn X (a s, status s, value16 s)),
               status := snd (ARR_fn X (a s, status s, value16 s))\<rparr>"

subsection \<open>Opcode functions that touch registers and flags only\<close>

text \<open>
  C++ computes in \<^verbatim>\<open>int\<close> and converts to \<^verbatim>\<open>uint16_t\<close> (the local \<^verbatim>\<open>result\<close>, or the
  parameter of \<^verbatim>\<open>EstablishNZ\<close> and \<^verbatim>\<open>SetC\<close>), which reduces modulo \<open>2 ^ 16\<close>; no
  intermediate value leaves the range of \<^verbatim>\<open>int\<close>, so 16-bit word arithmetic computes the
  converted value.
\<close>

definition ANC :: "'h M6502 \<Rightarrow> 'h M6502" where
  "ANC s = (let result = ucast (a s) AND value16 s;
                s = EstablishNZ result s;
                s = SetC_test (result AND 0x0080) s
            in s\<lparr>a := ucast result\<rparr>)"
definition AND_op :: "'h M6502 \<Rightarrow> 'h M6502" where
  "AND_op s = (let result = ucast (a s) AND value16 s;
                   s = EstablishNZ result s
               in s\<lparr>a := ucast result\<rparr>)"
definition BIT :: "'h M6502 \<Rightarrow> 'h M6502" where
  "BIT s = (let result = ucast (a s) AND value16 s;
                s = EstablishZ result s;
                s = SetV_test (value16 s AND 0x40) s
            in EstablishN (value16 s) s)"
definition BRK :: "'h M6502 \<Rightarrow> 'h M6502" where "BRK s = s"
definition CLC :: "'h M6502 \<Rightarrow> 'h M6502" where "CLC s = ClearC s"
definition CLD :: "'h M6502 \<Rightarrow> 'h M6502" where "CLD s = ClearD s"
definition CLI :: "'h M6502 \<Rightarrow> 'h M6502" where
  "CLI s = (ClearI s)\<lparr>CLIMaskingInterrupt := True\<rparr>"
definition CLV :: "'h M6502 \<Rightarrow> 'h M6502" where "CLV s = ClearV s"
definition CMP :: "'h M6502 \<Rightarrow> 'h M6502" where
  "CMP s = (let result = ucast (a s) - value16 s;
                s = SetC_test (of_bool (a s \<ge> ucast (value16 s))) s;
                s = SetZ_test (of_bool (a s = ucast (value16 s))) s
            in EstablishN result s)"
definition CPX :: "'h M6502 \<Rightarrow> 'h M6502" where
  "CPX s = (let result = ucast (x s) - value16 s;
                s = SetC_test (of_bool (x s \<ge> ucast (value16 s))) s;
                s = SetZ_test (of_bool (x s = ucast (value16 s))) s
            in EstablishN result s)"
definition CPY :: "'h M6502 \<Rightarrow> 'h M6502" where
  "CPY s = (let result = ucast (y s) - value16 s;
                s = SetC_test (of_bool (y s \<ge> ucast (value16 s))) s;
                s = SetZ_test (of_bool (y s = ucast (value16 s))) s
            in EstablishN result s)"
definition DEX :: "'h M6502 \<Rightarrow> 'h M6502" where
  "DEX s = (let s = s\<lparr>x := x s - 1\<rparr> in EstablishNZ (ucast (x s)) s)"
definition DEY :: "'h M6502 \<Rightarrow> 'h M6502" where
  "DEY s = (let s = s\<lparr>y := y s - 1\<rparr> in EstablishNZ (ucast (y s)) s)"
definition EOR :: "'h M6502 \<Rightarrow> 'h M6502" where
  "EOR s = (let result = ucast (a s) XOR value16 s;
                s = EstablishNZ result s
            in s\<lparr>a := ucast result\<rparr>)"
definition INX :: "'h M6502 \<Rightarrow> 'h M6502" where
  "INX s = (let s = s\<lparr>x := x s + 1\<rparr> in EstablishNZ (ucast (x s)) s)"
definition INY :: "'h M6502 \<Rightarrow> 'h M6502" where
  "INY s = (let s = s\<lparr>y := y s + 1\<rparr> in EstablishNZ (ucast (y s)) s)"
definition JAM :: "'h M6502 \<Rightarrow> 'h M6502" where "JAM s = s"
definition JMP :: "'h M6502 \<Rightarrow> 'h M6502" where "JMP s = s\<lparr>pc := ea s\<rparr>"
definition JSR :: "'h M6502 \<Rightarrow> 'h M6502" where "JSR s = s"
definition LDA :: "'h M6502 \<Rightarrow> 'h M6502" where
  "LDA s = (let s = s\<lparr>a := ucast (value16 s)\<rparr> in EstablishNZ (ucast (a s)) s)"
definition LDX :: "'h M6502 \<Rightarrow> 'h M6502" where
  "LDX s = (let s = s\<lparr>x := ucast (value16 s)\<rparr> in EstablishNZ (ucast (x s)) s)"
definition LDY :: "'h M6502 \<Rightarrow> 'h M6502" where
  "LDY s = (let s = s\<lparr>y := ucast (value16 s)\<rparr> in EstablishNZ (ucast (y s)) s)"
definition NOP :: "'h M6502 \<Rightarrow> 'h M6502" where "NOP s = s"
definition ORA :: "'h M6502 \<Rightarrow> 'h M6502" where
  "ORA s = (let result = ucast (a s) OR value16 s;
                s = EstablishNZ result s
            in s\<lparr>a := ucast result\<rparr>)"
definition RTI :: "'h M6502 \<Rightarrow> 'h M6502" where "RTI s = s"
definition RTS :: "'h M6502 \<Rightarrow> 'h M6502" where "RTS s = s"
definition SEC :: "'h M6502 \<Rightarrow> 'h M6502" where "SEC s = SetC s"
definition SED :: "'h M6502 \<Rightarrow> 'h M6502" where "SED s = SetD s"
definition SEI :: "'h M6502 \<Rightarrow> 'h M6502" where "SEI s = SetI s"
definition TAX :: "'h M6502 \<Rightarrow> 'h M6502" where
  "TAX s = (let s = s\<lparr>x := a s\<rparr> in EstablishNZ (ucast (a s)) s)"
definition TAY :: "'h M6502 \<Rightarrow> 'h M6502" where
  "TAY s = (let s = s\<lparr>y := a s\<rparr> in EstablishNZ (ucast (y s)) s)"
definition TSX :: "'h M6502 \<Rightarrow> 'h M6502" where
  "TSX s = (let s = s\<lparr>x := sp s\<rparr> in EstablishNZ (ucast (x s)) s)"
definition TXA :: "'h M6502 \<Rightarrow> 'h M6502" where
  "TXA s = (let s = s\<lparr>a := x s\<rparr> in EstablishNZ (ucast (a s)) s)"
definition TXS :: "'h M6502 \<Rightarrow> 'h M6502" where "TXS s = s\<lparr>sp := x s\<rparr>"
definition TYA :: "'h M6502 \<Rightarrow> 'h M6502" where
  "TYA s = (let s = s\<lparr>a := y s\<rparr> in EstablishNZ (ucast (a s)) s)"

definition ASR :: "'h M6502 \<Rightarrow> 'h M6502" where
  "ASR s = (let result = ucast (a s) AND value16 s;
                s = SetC_test (result AND 1) s;
                result = drop_bit 1 result;
                s = EstablishNZ result s
            in s\<lparr>a := ucast result\<rparr>)"
definition LXA :: "'h M6502 \<Rightarrow> 'h M6502" where
  "LXA s = (let result = ucast (a s OR LXA_MAGIC) AND value16 s;
                s = EstablishNZ result s;
                s = s\<lparr>x := ucast result\<rparr>
            in s\<lparr>a := x s\<rparr>)"
definition LAX :: "'h M6502 \<Rightarrow> 'h M6502" where
  "LAX s = LDX (LDA s)"
definition LAS :: "'h M6502 \<Rightarrow> 'h M6502" where
  "LAS s = (let s = s\<lparr>sp := sp s AND ucast (value16 s)\<rparr>;
                s = s\<lparr>x := sp s\<rparr>;
                s = s\<lparr>a := sp s\<rparr>
            in EstablishNZ (ucast (x s)) s)"
definition SBX :: "'h M6502 \<Rightarrow> 'h M6502" where
  "SBX s = (let result = ucast (a s AND x s) - value16 s;
                s = s\<lparr>x := ucast (result AND 0xff)\<rparr>;
                s = EstablishNZ (ucast (x s)) s
            in SetC_test (of_bool (result < 0x100)) s)"
definition XAA :: "'h M6502 \<Rightarrow> 'h M6502" where
  "XAA s = (let result = (ucast ((a s OR XAA_MAGIC) AND x s AND ucast (value16 s)) :: u16);
                s = EstablishNZ result s
            in s\<lparr>a := ucast result\<rparr>)"

subsection \<open>Opcode functions that use the bus\<close>

definition ASL :: "'h M6502 \<Rightarrow> 'h M6502 option" where
  "ASL s = (let result = push_bit 1 (value16 s);
                s = EstablishC result s;
                s = EstablishNZ result s
            in WriteValue (ucast result) s)"
definition DEC :: "'h M6502 \<Rightarrow> 'h M6502 option" where
  "DEC s = (let result = value16 s - 1;
                s = EstablishNZ result s
            in WriteValue (ucast result) s)"
definition INC :: "'h M6502 \<Rightarrow> 'h M6502 option" where
  "INC s = (let result = value16 s + 1;
                s = EstablishNZ result s
            in WriteValue (ucast result) s)"
definition LSR :: "'h M6502 \<Rightarrow> 'h M6502 option" where
  "LSR s = (let result = drop_bit 1 (value16 s);
                s = SetC_test (value16 s AND 1) s;
                s = EstablishNZ result s
            in WriteValue (ucast result) s)"
definition ROL :: "'h M6502 \<Rightarrow> 'h M6502 option" where
  "ROL s = (let result = push_bit 1 (value16 s) OR ucast (status s AND FLAG_CARRY);
                s = EstablishC result s;
                s = EstablishNZ result s
            in WriteValue (ucast result) s)"
definition ROR :: "'h M6502 \<Rightarrow> 'h M6502 option" where
  "ROR s = (let result = drop_bit 1 (value16 s) OR push_bit 7 (ucast (status s AND FLAG_CARRY));
                s = SetC_test (value16 s AND 1) s;
                s = EstablishNZ result s
            in WriteValue (ucast result) s)"
definition STA :: "'h M6502 \<Rightarrow> 'h M6502 option" where "STA s = WriteValue (a s) s"
definition STX :: "'h M6502 \<Rightarrow> 'h M6502 option" where "STX s = WriteValue (x s) s"
definition STY :: "'h M6502 \<Rightarrow> 'h M6502 option" where "STY s = WriteValue (y s) s"
definition PHA :: "'h M6502 \<Rightarrow> 'h M6502 option" where "PHA s = Push (a s) s"
definition PHP :: "'h M6502 \<Rightarrow> 'h M6502 option" where
  "PHP s = Push (status s OR FLAG_CONSTANT OR FLAG_BREAK) s"
definition PLA :: "'h M6502 \<Rightarrow> 'h M6502 option" where
  "PLA s = do {
     (b, s) \<leftarrow> Pull s;
     let s = s\<lparr>a := b\<rparr>;
     Some (EstablishNZ (ucast (a s)) s) }"
definition PLP :: "'h M6502 \<Rightarrow> 'h M6502 option" where
  "PLP s = do {
     (b, s) \<leftarrow> Pull s;
     Some (s\<lparr>status := b OR FLAG_CONSTANT\<rparr>) }"

definition SAX :: "'h M6502 \<Rightarrow> 'h M6502 option" where
  "SAX s = WriteValue (a s AND x s) s"
definition SHA :: "'h M6502 \<Rightarrow> 'h M6502 option" where
  "SHA s = WriteValue (ucast (ucast (a s) AND ucast (x s) AND (drop_bit 8 (ea s) + 1))) s"
definition SHY :: "'h M6502 \<Rightarrow> 'h M6502 option" where
  "SHY s = (let result = (drop_bit 8 (ea s) + 1) AND ucast (y s)
            in WriteValue (ucast result) s)"
definition SHX :: "'h M6502 \<Rightarrow> 'h M6502 option" where
  "SHX s = (let result = (drop_bit 8 (ea s) + 1) AND ucast (x s)
            in WriteValue (ucast result) s)"
definition SHS :: "'h M6502 \<Rightarrow> 'h M6502 option" where
  "SHS s = (let result = (ucast (a s AND x s) :: u16) in do {
              s \<leftarrow> WriteValue (ucast (result AND (drop_bit 8 (ea s) + 1))) s;
              Some (s\<lparr>sp := ucast result\<rparr>) })"
definition DCP :: "'h M6502 \<Rightarrow> 'h M6502 option" where
  "DCP s = (let result = (value16 s - 1) AND 0xff;
                s = SetC_test (of_bool (a s \<ge> ucast result)) s;
                s = EstablishNZ (ucast (a s) - ucast (ucast result :: u8)) s
            in WriteValue (ucast result) s)"
definition ISB :: "M6502_cpp \<Rightarrow> 'h M6502 \<Rightarrow> 'h M6502 option" where
  "ISB X s = (let s = s\<lparr>value16 := (value16 s + 1) AND 0xff\<rparr> in do {
                s \<leftarrow> WriteValue (ucast (value16 s)) s;
                Some (SBC X s) })"
definition SLO :: "'h M6502 \<Rightarrow> 'h M6502 option" where
  "SLO s = (let result = push_bit 1 (value16 s);
                s = EstablishC result s;
                s = s\<lparr>a := a s OR ucast result\<rparr>;
                s = EstablishNZ (ucast (a s)) s
            in WriteValue (ucast result) s)"
definition RLA :: "'h M6502 \<Rightarrow> 'h M6502 option" where
  "RLA s = (let result = push_bit 1 (value16 s) OR ucast (status s AND FLAG_CARRY);
                s = EstablishC result s;
                s = s\<lparr>a := a s AND ucast result\<rparr>;
                s = EstablishNZ (ucast (a s)) s
            in WriteValue (ucast result) s)"
definition SRE :: "'h M6502 \<Rightarrow> 'h M6502 option" where
  "SRE s = (let result = drop_bit 1 (value16 s);
                s = SetC_test (value16 s AND 1) s;
                s = s\<lparr>a := a s XOR ucast result\<rparr>;
                s = EstablishNZ (ucast (a s)) s
            in WriteValue (ucast result) s)"
definition RRA :: "M6502_cpp \<Rightarrow> 'h M6502 \<Rightarrow> 'h M6502 option" where
  "RRA X s = (let result = drop_bit 1 (value16 s) OR push_bit 7 (ucast (status s AND FLAG_CARRY));
                  s = SetC_test (value16 s AND 1) s
              in do {
                s \<leftarrow> WriteValue (ucast result) s;
                Some (ADC X (s\<lparr>value16 := result AND 0xff\<rparr>)) })"

text \<open>
  The macro \<^verbatim>\<open>BRANCH_CONDITION(flag, condition)\<close>. \<^verbatim>\<open>ra\<close> shares its storage with \<^verbatim>\<open>ea\<close>
  and \<^verbatim>\<open>oldpc\<close> with \<^verbatim>\<open>ia\<close>.
\<close>

definition BRANCH_CONDITION :: "u8 \<Rightarrow> u8 \<Rightarrow> 'h M6502 \<Rightarrow> 'h M6502 option" where
  "BRANCH_CONDITION flag condition s = do {
     (b, s) \<leftarrow> BUS_READ (pc s) s;
     let s = s\<lparr>pc := pc s + 1, ea := ucast b\<rparr>;
     let s = (if ea s AND 0x80 \<noteq> 0 then s\<lparr>ea := ea s OR 0xFF00\<rparr> else s);
     Some (if status s AND flag = condition
           then s\<lparr>ia := pc s,
                  pc := (pc s AND 0xff00) OR ((pc s + ea s) AND 0xff),
                  addressModeCycleFn := Stage rel_5_8 T2\<rparr>
           else s\<lparr>addressModeCycleFn := PtrInstructionFetch\<rparr>) }"

definition BCC :: "'h M6502 \<Rightarrow> 'h M6502 option" where "BCC s = BRANCH_CONDITION FLAG_CARRY 0 s"
definition BCS :: "'h M6502 \<Rightarrow> 'h M6502 option" where "BCS s = BRANCH_CONDITION FLAG_CARRY FLAG_CARRY s"
definition BEQ :: "'h M6502 \<Rightarrow> 'h M6502 option" where "BEQ s = BRANCH_CONDITION FLAG_ZERO FLAG_ZERO s"
definition BMI :: "'h M6502 \<Rightarrow> 'h M6502 option" where "BMI s = BRANCH_CONDITION FLAG_SIGN FLAG_SIGN s"
definition BNE :: "'h M6502 \<Rightarrow> 'h M6502 option" where "BNE s = BRANCH_CONDITION FLAG_ZERO 0 s"
definition BPL :: "'h M6502 \<Rightarrow> 'h M6502 option" where "BPL s = BRANCH_CONDITION FLAG_SIGN 0 s"
definition BVC :: "'h M6502 \<Rightarrow> 'h M6502 option" where "BVC s = BRANCH_CONDITION FLAG_OVERFLOW 0 s"
definition BVS :: "'h M6502 \<Rightarrow> 'h M6502 option" where "BVS s = BRANCH_CONDITION FLAG_OVERFLOW FLAG_OVERFLOW s"

subsection \<open>Calling through \<^verbatim>\<open>opcodeCycleFn\<close>\<close>

text \<open>\<^verbatim>\<open>(this->*M6502::opcodeCycleFn)()\<close>: each pointer calls the function it names.\<close>

definition call_opcode :: "M6502_cpp \<Rightarrow> OpcodeCycleFunction \<Rightarrow> 'h M6502 \<Rightarrow> 'h M6502 option" where
  "call_opcode X f s =
     (case f of
        OP_ADC \<Rightarrow> Some (ADC X s) | OP_ANC \<Rightarrow> Some (ANC s) | OP_AND \<Rightarrow> Some (AND_op s)
      | OP_ASL \<Rightarrow> ASL s | OP_BCC \<Rightarrow> BCC s | OP_BCS \<Rightarrow> BCS s | OP_BEQ \<Rightarrow> BEQ s
      | OP_BIT \<Rightarrow> Some (BIT s) | OP_BMI \<Rightarrow> BMI s | OP_BNE \<Rightarrow> BNE s | OP_BPL \<Rightarrow> BPL s
      | OP_BVC \<Rightarrow> BVC s | OP_BVS \<Rightarrow> BVS s | OP_BRK \<Rightarrow> Some (BRK s)
      | OP_CLC \<Rightarrow> Some (CLC s) | OP_CLD \<Rightarrow> Some (CLD s) | OP_CLI \<Rightarrow> Some (CLI s)
      | OP_CLV \<Rightarrow> Some (CLV s) | OP_CMP \<Rightarrow> Some (CMP s) | OP_CPX \<Rightarrow> Some (CPX s)
      | OP_CPY \<Rightarrow> Some (CPY s) | OP_DEC \<Rightarrow> DEC s | OP_DEX \<Rightarrow> Some (DEX s)
      | OP_DEY \<Rightarrow> Some (DEY s) | OP_EOR \<Rightarrow> Some (EOR s) | OP_INC \<Rightarrow> INC s
      | OP_INX \<Rightarrow> Some (INX s) | OP_INY \<Rightarrow> Some (INY s) | OP_JAM \<Rightarrow> Some (JAM s)
      | OP_JMP \<Rightarrow> Some (JMP s) | OP_JSR \<Rightarrow> Some (JSR s) | OP_LDA \<Rightarrow> Some (LDA s)
      | OP_LDX \<Rightarrow> Some (LDX s) | OP_LDY \<Rightarrow> Some (LDY s) | OP_LSR \<Rightarrow> LSR s
      | OP_NOP \<Rightarrow> Some (NOP s) | OP_ORA \<Rightarrow> Some (ORA s) | OP_PHA \<Rightarrow> PHA s
      | OP_PHP \<Rightarrow> PHP s | OP_PLA \<Rightarrow> PLA s | OP_PLP \<Rightarrow> PLP s | OP_ROL \<Rightarrow> ROL s
      | OP_ROR \<Rightarrow> ROR s | OP_RTI \<Rightarrow> Some (RTI s) | OP_RTS \<Rightarrow> Some (RTS s)
      | OP_SBC \<Rightarrow> Some (SBC X s) | OP_SEC \<Rightarrow> Some (SEC s) | OP_SED \<Rightarrow> Some (SED s)
      | OP_SEI \<Rightarrow> Some (SEI s) | OP_STA \<Rightarrow> STA s | OP_STX \<Rightarrow> STX s | OP_STY \<Rightarrow> STY s
      | OP_TAX \<Rightarrow> Some (TAX s) | OP_TAY \<Rightarrow> Some (TAY s) | OP_TSX \<Rightarrow> Some (TSX s)
      | OP_TXA \<Rightarrow> Some (TXA s) | OP_TXS \<Rightarrow> Some (TXS s) | OP_TYA \<Rightarrow> Some (TYA s)
      | OP_ASR \<Rightarrow> Some (ASR s) | OP_LXA \<Rightarrow> Some (LXA s) | OP_ARR \<Rightarrow> Some (ARR X s)
      | OP_LAX \<Rightarrow> Some (LAX s) | OP_LAS \<Rightarrow> Some (LAS s) | OP_SAX \<Rightarrow> SAX s
      | OP_SBX \<Rightarrow> Some (SBX s) | OP_SHA \<Rightarrow> SHA s | OP_SHY \<Rightarrow> SHY s | OP_DCP \<Rightarrow> DCP s
      | OP_ISB \<Rightarrow> ISB X s | OP_SLO \<Rightarrow> SLO s | OP_RLA \<Rightarrow> RLA s | OP_SRE \<Rightarrow> SRE s
      | OP_RRA \<Rightarrow> RRA X s | OP_SHS \<Rightarrow> SHS s | OP_SHX \<Rightarrow> SHX s | OP_XAA \<Rightarrow> Some (XAA s))"

definition ExecuteOpcode :: "M6502_cpp \<Rightarrow> 'h M6502 \<Rightarrow> 'h M6502 option" where
  "ExecuteOpcode X s = do {
     s \<leftarrow> call_opcode X (opcodeCycleFn s) s;
     Some (s\<lparr>addressModeCycleFn := PtrInstructionFetch\<rparr>) }"

subsection \<open>Address mode T-stage functions defined in the header\<close>

text \<open>
  Each function is one cycle. In \<^verbatim>\<open>BUS_READ(pc++)\<close> the read is at the old \<^verbatim>\<open>pc\<close>; in
  \<^verbatim>\<open>ea |= (BUS_READ(pc++) << 8)\<close> the byte read becomes the high byte.
\<close>

text \<open>Single byte instructions.\<close>
definition sb_1_T1 :: "M6502_cpp \<Rightarrow> 'h M6502 \<Rightarrow> 'h M6502 option" where
  "sb_1_T1 X s = do {
     (b, s) \<leftarrow> BUS_READ (pc s) s;
     ExecuteOpcode X (s\<lparr>value16 := ucast (a s)\<rparr>) }"
definition sb_jam_T1 :: "M6502_cpp \<Rightarrow> 'h M6502 \<Rightarrow> 'h M6502 option" where
  "sb_jam_T1 X s = do {
     (b, s) \<leftarrow> BUS_READ (pc s) s;
     ExecuteOpcode X s }"
definition imm_2_1_T1 :: "M6502_cpp \<Rightarrow> 'h M6502 \<Rightarrow> 'h M6502 option" where
  "imm_2_1_T1 X s = do {
     (b, s) \<leftarrow> BUS_READ (pc s) s;
     ExecuteOpcode X (s\<lparr>pc := pc s + 1, value16 := ucast b\<rparr>) }"
text \<open>Branches execute their opcode in T1; \<^verbatim>\<open>rel_5_8_T2\<close> is only declared in the header (see below).\<close>
definition rel_5_8_T1 :: "M6502_cpp \<Rightarrow> 'h M6502 \<Rightarrow> 'h M6502 option" where
  "rel_5_8_T1 X s = call_opcode X (opcodeCycleFn s) s"
definition rel_5_8_T3 :: "'h M6502 \<Rightarrow> 'h M6502 option" where
  "rel_5_8_T3 s = do {
     (b, s) \<leftarrow> BUS_READ (pc s) s;
     Some (s\<lparr>addressModeCycleFn := PtrInstructionFetch\<rparr>) }"
text \<open>Zero page and absolute, read and write.\<close>
definition zp_2_1_T1 :: "'h M6502 \<Rightarrow> 'h M6502 option" where
  "zp_2_1_T1 s = do {
     (b, s) \<leftarrow> BUS_READ (pc s) s;
     Some (s\<lparr>pc := pc s + 1, ea := ucast b, addressModeCycleFn := Stage zp_2_1 T2\<rparr>) }"
definition zp_2_1_T2 :: "M6502_cpp \<Rightarrow> 'h M6502 \<Rightarrow> 'h M6502 option" where
  "zp_2_1_T2 X s = do {
     (b, s) \<leftarrow> BUS_READ (ea s) s;
     ExecuteOpcode X (s\<lparr>value16 := ucast b\<rparr>) }"
definition zp_3_1_T1 :: "'h M6502 \<Rightarrow> 'h M6502 option" where
  "zp_3_1_T1 s = do {
     (b, s) \<leftarrow> BUS_READ (pc s) s;
     Some (s\<lparr>pc := pc s + 1, ea := ucast b, addressModeCycleFn := Stage zp_3_1 T2\<rparr>) }"
definition zp_3_1_T2 :: "M6502_cpp \<Rightarrow> 'h M6502 \<Rightarrow> 'h M6502 option" where
  "zp_3_1_T2 X s = ExecuteOpcode X s"
definition abs_2_3_T1 :: "'h M6502 \<Rightarrow> 'h M6502 option" where
  "abs_2_3_T1 s = do {
     (b, s) \<leftarrow> BUS_READ (pc s) s;
     Some (s\<lparr>pc := pc s + 1, ea := ucast b, addressModeCycleFn := Stage abs_2_3 T2\<rparr>) }"
definition abs_2_3_T2 :: "'h M6502 \<Rightarrow> 'h M6502 option" where
  "abs_2_3_T2 s = do {
     (b, s) \<leftarrow> BUS_READ (pc s) s;
     Some (s\<lparr>pc := pc s + 1, ea := ea s OR push_bit 8 (ucast b), addressModeCycleFn := Stage abs_2_3 T3\<rparr>) }"
definition abs_2_3_T3 :: "M6502_cpp \<Rightarrow> 'h M6502 \<Rightarrow> 'h M6502 option" where
  "abs_2_3_T3 X s = do {
     (b, s) \<leftarrow> BUS_READ (ea s) s;
     ExecuteOpcode X (s\<lparr>value16 := ucast b\<rparr>) }"
definition abs_3_2_T1 :: "'h M6502 \<Rightarrow> 'h M6502 option" where
  "abs_3_2_T1 s = do {
     (b, s) \<leftarrow> BUS_READ (pc s) s;
     Some (s\<lparr>pc := pc s + 1, ea := ucast b, addressModeCycleFn := Stage abs_3_2 T2\<rparr>) }"
definition abs_3_2_T2 :: "'h M6502 \<Rightarrow> 'h M6502 option" where
  "abs_3_2_T2 s = do {
     (b, s) \<leftarrow> BUS_READ (pc s) s;
     Some (s\<lparr>pc := pc s + 1, ea := ea s OR push_bit 8 (ucast b), addressModeCycleFn := Stage abs_3_2 T3\<rparr>) }"
definition abs_3_2_T3 :: "M6502_cpp \<Rightarrow> 'h M6502 \<Rightarrow> 'h M6502 option" where
  "abs_3_2_T3 X s = ExecuteOpcode X s"
text \<open>Indexed indirect \<open>(zp,X)\<close>: read, write and the undocumented read-modify-write.\<close>
definition idx_2_4_T1 :: "'h M6502 \<Rightarrow> 'h M6502 option" where
  "idx_2_4_T1 s = do {
     (b, s) \<leftarrow> BUS_READ (pc s) s;
     Some (s\<lparr>pc := pc s + 1, ia := ucast b, addressModeCycleFn := Stage idx_2_4 T2\<rparr>) }"
definition idx_2_4_T2 :: "'h M6502 \<Rightarrow> 'h M6502 option" where
  "idx_2_4_T2 s = do {
     (b, s) \<leftarrow> BUS_READ (ia s) s;
     Some (s\<lparr>addressModeCycleFn := Stage idx_2_4 T3\<rparr>) }"
definition idx_2_4_T3 :: "'h M6502 \<Rightarrow> 'h M6502 option" where
  "idx_2_4_T3 s = (let s = s\<lparr>ia := (ia s + ucast (x s)) AND 0xff\<rparr> in do {
     (b, s) \<leftarrow> BUS_READ (ia s) s;
     Some (s\<lparr>ia := ia s + 1, ea := ucast b, addressModeCycleFn := Stage idx_2_4 T4\<rparr>) })"
definition idx_2_4_T4 :: "'h M6502 \<Rightarrow> 'h M6502 option" where
  "idx_2_4_T4 s = do {
     (b, s) \<leftarrow> BUS_READ (ia s AND 0xff) s;
     Some (s\<lparr>ea := ea s OR push_bit 8 (ucast b), addressModeCycleFn := Stage idx_2_4 T5\<rparr>) }"
definition idx_2_4_T5 :: "M6502_cpp \<Rightarrow> 'h M6502 \<Rightarrow> 'h M6502 option" where
  "idx_2_4_T5 X s = do {
     (b, s) \<leftarrow> BUS_READ (ea s) s;
     ExecuteOpcode X (s\<lparr>value16 := ucast b\<rparr>) }"
definition idx_3_3_T1 :: "'h M6502 \<Rightarrow> 'h M6502 option" where
  "idx_3_3_T1 s = do {
     (b, s) \<leftarrow> BUS_READ (pc s) s;
     Some (s\<lparr>pc := pc s + 1, ia := ucast b, addressModeCycleFn := Stage idx_3_3 T2\<rparr>) }"
definition idx_3_3_T2 :: "'h M6502 \<Rightarrow> 'h M6502 option" where
  "idx_3_3_T2 s = do {
     (b, s) \<leftarrow> BUS_READ (ia s) s;
     Some (s\<lparr>addressModeCycleFn := Stage idx_3_3 T3\<rparr>) }"
definition idx_3_3_T3 :: "'h M6502 \<Rightarrow> 'h M6502 option" where
  "idx_3_3_T3 s = (let s = s\<lparr>ia := (ia s + ucast (x s)) AND 0xff\<rparr> in do {
     (b, s) \<leftarrow> BUS_READ (ia s) s;
     Some (s\<lparr>ia := ia s + 1, ea := ucast b, addressModeCycleFn := Stage idx_3_3 T4\<rparr>) })"
definition idx_3_3_T4 :: "'h M6502 \<Rightarrow> 'h M6502 option" where
  "idx_3_3_T4 s = do {
     (b, s) \<leftarrow> BUS_READ (ia s AND 0xff) s;
     Some (s\<lparr>ea := ea s OR push_bit 8 (ucast b), addressModeCycleFn := Stage idx_3_3 T5\<rparr>) }"
definition idx_3_3_T5 :: "M6502_cpp \<Rightarrow> 'h M6502 \<Rightarrow> 'h M6502 option" where
  "idx_3_3_T5 X s = ExecuteOpcode X s"
definition idx_Undoc_T1 :: "'h M6502 \<Rightarrow> 'h M6502 option" where
  "idx_Undoc_T1 s = do {
     (b, s) \<leftarrow> BUS_READ (pc s) s;
     Some (s\<lparr>pc := pc s + 1, ia := ucast b, addressModeCycleFn := Stage idx_Undoc T2\<rparr>) }"
definition idx_Undoc_T2 :: "'h M6502 \<Rightarrow> 'h M6502 option" where
  "idx_Undoc_T2 s = do {
     (b, s) \<leftarrow> BUS_READ (ia s) s;
     Some (s\<lparr>addressModeCycleFn := Stage idx_Undoc T3\<rparr>) }"
definition idx_Undoc_T3 :: "'h M6502 \<Rightarrow> 'h M6502 option" where
  "idx_Undoc_T3 s = (let s = s\<lparr>ia := (ia s + ucast (x s)) AND 0xff\<rparr> in do {
     (b, s) \<leftarrow> BUS_READ (ia s) s;
     Some (s\<lparr>ia := ia s + 1, ea := ucast b, addressModeCycleFn := Stage idx_Undoc T4\<rparr>) })"
definition idx_Undoc_T4 :: "'h M6502 \<Rightarrow> 'h M6502 option" where
  "idx_Undoc_T4 s = do {
     (b, s) \<leftarrow> BUS_READ (ia s AND 0xff) s;
     Some (s\<lparr>ea := ea s OR push_bit 8 (ucast b), addressModeCycleFn := Stage idx_Undoc T5\<rparr>) }"
definition idx_Undoc_T5 :: "'h M6502 \<Rightarrow> 'h M6502 option" where
  "idx_Undoc_T5 s = do {
     (b, s) \<leftarrow> BUS_READ (ea s) s;
     Some (s\<lparr>value16 := ucast b, addressModeCycleFn := Stage idx_Undoc T6\<rparr>) }"
definition idx_Undoc_T6 :: "'h M6502 \<Rightarrow> 'h M6502 option" where
  "idx_Undoc_T6 s = do {
     s \<leftarrow> BUS_WRITE (ea s) (ucast (value16 s)) s;
     Some (s\<lparr>addressModeCycleFn := Stage idx_Undoc T7\<rparr>) }"
definition idx_Undoc_T7 :: "M6502_cpp \<Rightarrow> 'h M6502 \<Rightarrow> 'h M6502 option" where
  "idx_Undoc_T7 X s = ExecuteOpcode X s"
text \<open>Absolute indexed, read (T3 is only declared in the header, see below) and write.\<close>
definition absx_2_5_T1 :: "'h M6502 \<Rightarrow> 'h M6502 option" where
  "absx_2_5_T1 s = do {
     (b, s) \<leftarrow> BUS_READ (pc s) s;
     Some (s\<lparr>pc := pc s + 1, ea := ucast b, addressModeCycleFn := Stage absx_2_5 T2\<rparr>) }"
definition absx_2_5_T2 :: "'h M6502 \<Rightarrow> 'h M6502 option" where
  "absx_2_5_T2 s = do {
     (b, s) \<leftarrow> BUS_READ (pc s) s;
     Some (s\<lparr>pc := pc s + 1, ea := ea s OR push_bit 8 (ucast b), addressModeCycleFn := Stage absx_2_5 T3\<rparr>) }"
definition absx_2_5_T4 :: "M6502_cpp \<Rightarrow> 'h M6502 \<Rightarrow> 'h M6502 option" where
  "absx_2_5_T4 X s = do {
     (b, s) \<leftarrow> BUS_READ (ea s) s;
     ExecuteOpcode X (s\<lparr>value16 := ucast b\<rparr>) }"
definition absx_3_4_T1 :: "'h M6502 \<Rightarrow> 'h M6502 option" where
  "absx_3_4_T1 s = do {
     (b, s) \<leftarrow> BUS_READ (pc s) s;
     Some (s\<lparr>pc := pc s + 1, ea := ucast b, addressModeCycleFn := Stage absx_3_4 T2\<rparr>) }"
definition absx_3_4_T2 :: "'h M6502 \<Rightarrow> 'h M6502 option" where
  "absx_3_4_T2 s = do {
     (b, s) \<leftarrow> BUS_READ (pc s) s;
     Some (s\<lparr>pc := pc s + 1, ea := ea s OR push_bit 8 (ucast b), addressModeCycleFn := Stage absx_3_4 T3\<rparr>) }"
definition absx_3_4_T3 :: "'h M6502 \<Rightarrow> 'h M6502 option" where
  "absx_3_4_T3 s = do {
     (b, s) \<leftarrow> BUS_READ (ea s) s;
     Some (s\<lparr>ea := ea s + ucast (x s), addressModeCycleFn := Stage absx_3_4 T4\<rparr>) }"
definition absx_3_4_T4 :: "M6502_cpp \<Rightarrow> 'h M6502 \<Rightarrow> 'h M6502 option" where
  "absx_3_4_T4 X s = ExecuteOpcode X s"
definition absy_2_5_T1 :: "'h M6502 \<Rightarrow> 'h M6502 option" where
  "absy_2_5_T1 s = do {
     (b, s) \<leftarrow> BUS_READ (pc s) s;
     Some (s\<lparr>pc := pc s + 1, ea := ucast b, addressModeCycleFn := Stage absy_2_5 T2\<rparr>) }"
definition absy_2_5_T2 :: "'h M6502 \<Rightarrow> 'h M6502 option" where
  "absy_2_5_T2 s = do {
     (b, s) \<leftarrow> BUS_READ (pc s) s;
     Some (s\<lparr>pc := pc s + 1, ea := ea s OR push_bit 8 (ucast b), addressModeCycleFn := Stage absy_2_5 T3\<rparr>) }"
definition absy_2_5_T4 :: "M6502_cpp \<Rightarrow> 'h M6502 \<Rightarrow> 'h M6502 option" where
  "absy_2_5_T4 X s = do {
     (b, s) \<leftarrow> BUS_READ (ea s) s;
     ExecuteOpcode X (s\<lparr>value16 := ucast b\<rparr>) }"
definition absy_3_4_T1 :: "'h M6502 \<Rightarrow> 'h M6502 option" where
  "absy_3_4_T1 s = do {
     (b, s) \<leftarrow> BUS_READ (pc s) s;
     Some (s\<lparr>pc := pc s + 1, ea := ucast b, addressModeCycleFn := Stage absy_3_4 T2\<rparr>) }"
definition absy_3_4_T2 :: "'h M6502 \<Rightarrow> 'h M6502 option" where
  "absy_3_4_T2 s = do {
     (b, s) \<leftarrow> BUS_READ (pc s) s;
     Some (s\<lparr>pc := pc s + 1, ea := ea s OR push_bit 8 (ucast b), addressModeCycleFn := Stage absy_3_4 T3\<rparr>) }"
definition absy_3_4_T3 :: "'h M6502 \<Rightarrow> 'h M6502 option" where
  "absy_3_4_T3 s = do {
     (b, s) \<leftarrow> BUS_READ (ea s) s;
     Some (s\<lparr>ea := ea s + ucast (y s), addressModeCycleFn := Stage absy_3_4 T4\<rparr>) }"
definition absy_3_4_T4 :: "M6502_cpp \<Rightarrow> 'h M6502 \<Rightarrow> 'h M6502 option" where
  "absy_3_4_T4 X s = ExecuteOpcode X s"
text \<open>Zero page indexed, read and write.\<close>
definition zpx_2_6_T1 :: "'h M6502 \<Rightarrow> 'h M6502 option" where
  "zpx_2_6_T1 s = do {
     (b, s) \<leftarrow> BUS_READ (pc s) s;
     Some (s\<lparr>pc := pc s + 1, ea := ucast b, addressModeCycleFn := Stage zpx_2_6 T2\<rparr>) }"
definition zpx_2_6_T2 :: "'h M6502 \<Rightarrow> 'h M6502 option" where
  "zpx_2_6_T2 s = do {
     (b, s) \<leftarrow> BUS_READ (ea s) s;
     Some (s\<lparr>addressModeCycleFn := Stage zpx_2_6 T3\<rparr>) }"
definition zpx_2_6_T3 :: "M6502_cpp \<Rightarrow> 'h M6502 \<Rightarrow> 'h M6502 option" where
  "zpx_2_6_T3 X s = (let s = s\<lparr>ea := (ea s + ucast (x s)) AND 0xFF\<rparr> in do {
     (b, s) \<leftarrow> BUS_READ (ea s) s;
     ExecuteOpcode X (s\<lparr>value16 := ucast b\<rparr>) })"
definition zpx_3_5_T1 :: "'h M6502 \<Rightarrow> 'h M6502 option" where
  "zpx_3_5_T1 s = do {
     (b, s) \<leftarrow> BUS_READ (pc s) s;
     Some (s\<lparr>pc := pc s + 1, ea := ucast b, addressModeCycleFn := Stage zpx_3_5 T2\<rparr>) }"
definition zpx_3_5_T2 :: "'h M6502 \<Rightarrow> 'h M6502 option" where
  "zpx_3_5_T2 s = do {
     (b, s) \<leftarrow> BUS_READ (ea s) s;
     Some (s\<lparr>addressModeCycleFn := Stage zpx_3_5 T3\<rparr>) }"
definition zpx_3_5_T3 :: "M6502_cpp \<Rightarrow> 'h M6502 \<Rightarrow> 'h M6502 option" where
  "zpx_3_5_T3 X s = ExecuteOpcode X (s\<lparr>ea := (ea s + ucast (x s)) AND 0xFF\<rparr>)"
definition zpy_2_6_T1 :: "'h M6502 \<Rightarrow> 'h M6502 option" where
  "zpy_2_6_T1 s = do {
     (b, s) \<leftarrow> BUS_READ (pc s) s;
     Some (s\<lparr>pc := pc s + 1, ea := ucast b, addressModeCycleFn := Stage zpy_2_6 T2\<rparr>) }"
definition zpy_2_6_T2 :: "'h M6502 \<Rightarrow> 'h M6502 option" where
  "zpy_2_6_T2 s = do {
     (b, s) \<leftarrow> BUS_READ (ea s) s;
     Some (s\<lparr>addressModeCycleFn := Stage zpy_2_6 T3\<rparr>) }"
definition zpy_2_6_T3 :: "M6502_cpp \<Rightarrow> 'h M6502 \<Rightarrow> 'h M6502 option" where
  "zpy_2_6_T3 X s = (let s = s\<lparr>ea := (ea s + ucast (y s)) AND 0xFF\<rparr> in do {
     (b, s) \<leftarrow> BUS_READ (ea s) s;
     ExecuteOpcode X (s\<lparr>value16 := ucast b\<rparr>) })"
definition zpy_3_5_T1 :: "'h M6502 \<Rightarrow> 'h M6502 option" where
  "zpy_3_5_T1 s = do {
     (b, s) \<leftarrow> BUS_READ (pc s) s;
     Some (s\<lparr>pc := pc s + 1, ea := ucast b, addressModeCycleFn := Stage zpy_3_5 T2\<rparr>) }"
definition zpy_3_5_T2 :: "'h M6502 \<Rightarrow> 'h M6502 option" where
  "zpy_3_5_T2 s = do {
     (b, s) \<leftarrow> BUS_READ (ea s) s;
     Some (s\<lparr>addressModeCycleFn := Stage zpy_3_5 T3\<rparr>) }"
definition zpy_3_5_T3 :: "M6502_cpp \<Rightarrow> 'h M6502 \<Rightarrow> 'h M6502 option" where
  "zpy_3_5_T3 X s = ExecuteOpcode X (s\<lparr>ea := (ea s + ucast (y s)) AND 0xFF\<rparr>)"
text \<open>Indirect indexed \<open>(zp),Y\<close>: read (T4 is only declared in the header, see below), write and the undocumented read-modify-write.\<close>
definition idy_2_7_T1 :: "'h M6502 \<Rightarrow> 'h M6502 option" where
  "idy_2_7_T1 s = do {
     (b, s) \<leftarrow> BUS_READ (pc s) s;
     Some (s\<lparr>pc := pc s + 1, ia := ucast b, addressModeCycleFn := Stage idy_2_7 T2\<rparr>) }"
definition idy_2_7_T2 :: "'h M6502 \<Rightarrow> 'h M6502 option" where
  "idy_2_7_T2 s = do {
     (b, s) \<leftarrow> BUS_READ (ia s) s;
     Some (s\<lparr>ia := ia s + 1, ea := ucast b, addressModeCycleFn := Stage idy_2_7 T3\<rparr>) }"
definition idy_2_7_T3 :: "'h M6502 \<Rightarrow> 'h M6502 option" where
  "idy_2_7_T3 s = do {
     (b, s) \<leftarrow> BUS_READ (ia s AND 0xff) s;
     Some (s\<lparr>ea := ea s OR push_bit 8 (ucast b), addressModeCycleFn := Stage idy_2_7 T4\<rparr>) }"
definition idy_2_7_T5 :: "M6502_cpp \<Rightarrow> 'h M6502 \<Rightarrow> 'h M6502 option" where
  "idy_2_7_T5 X s = do {
     (b, s) \<leftarrow> BUS_READ (ea s) s;
     ExecuteOpcode X (s\<lparr>value16 := ucast b\<rparr>) }"
definition idy_3_6_T1 :: "'h M6502 \<Rightarrow> 'h M6502 option" where
  "idy_3_6_T1 s = do {
     (b, s) \<leftarrow> BUS_READ (pc s) s;
     Some (s\<lparr>pc := pc s + 1, ia := ucast b, addressModeCycleFn := Stage idy_3_6 T2\<rparr>) }"
definition idy_3_6_T2 :: "'h M6502 \<Rightarrow> 'h M6502 option" where
  "idy_3_6_T2 s = do {
     (b, s) \<leftarrow> BUS_READ (ia s) s;
     Some (s\<lparr>ia := ia s + 1, ea := ucast b, addressModeCycleFn := Stage idy_3_6 T3\<rparr>) }"
definition idy_3_6_T3 :: "'h M6502 \<Rightarrow> 'h M6502 option" where
  "idy_3_6_T3 s = do {
     (b, s) \<leftarrow> BUS_READ (ia s AND 0xff) s;
     Some (s\<lparr>ea := ea s OR push_bit 8 (ucast b), addressModeCycleFn := Stage idy_3_6 T4\<rparr>) }"
definition idy_3_6_T4 :: "'h M6502 \<Rightarrow> 'h M6502 option" where
  "idy_3_6_T4 s = (let s = s\<lparr>ea := ea s + ucast (y s)\<rparr> in do {
     (b, s) \<leftarrow> BUS_READ (ea s) s;
     Some (s\<lparr>addressModeCycleFn := Stage idy_3_6 T5\<rparr>) })"
definition idy_3_6_T5 :: "M6502_cpp \<Rightarrow> 'h M6502 \<Rightarrow> 'h M6502 option" where
  "idy_3_6_T5 X s = ExecuteOpcode X s"
definition idy_Undoc_T1 :: "'h M6502 \<Rightarrow> 'h M6502 option" where
  "idy_Undoc_T1 s = do {
     (b, s) \<leftarrow> BUS_READ (pc s) s;
     Some (s\<lparr>pc := pc s + 1, ia := ucast b, addressModeCycleFn := Stage idy_Undoc T2\<rparr>) }"
definition idy_Undoc_T2 :: "'h M6502 \<Rightarrow> 'h M6502 option" where
  "idy_Undoc_T2 s = do {
     (b, s) \<leftarrow> BUS_READ (ia s) s;
     Some (s\<lparr>ia := ia s + 1, ea := ucast b, addressModeCycleFn := Stage idy_Undoc T3\<rparr>) }"
definition idy_Undoc_T3 :: "'h M6502 \<Rightarrow> 'h M6502 option" where
  "idy_Undoc_T3 s = do {
     (b, s) \<leftarrow> BUS_READ (ia s AND 0xff) s;
     Some (s\<lparr>ea := ea s OR push_bit 8 (ucast b), addressModeCycleFn := Stage idy_Undoc T4\<rparr>) }"
definition idy_Undoc_T4 :: "'h M6502 \<Rightarrow> 'h M6502 option" where
  "idy_Undoc_T4 s = (let s = s\<lparr>ea := ea s + ucast (y s)\<rparr> in do {
     (b, s) \<leftarrow> BUS_READ (ea s) s;
     Some (s\<lparr>addressModeCycleFn := Stage idy_Undoc T5\<rparr>) })"
definition idy_Undoc_T5 :: "'h M6502 \<Rightarrow> 'h M6502 option" where
  "idy_Undoc_T5 s = do {
     (b, s) \<leftarrow> BUS_READ (ea s) s;
     Some (s\<lparr>value16 := ucast b, addressModeCycleFn := Stage idy_Undoc T6\<rparr>) }"
definition idy_Undoc_T6 :: "'h M6502 \<Rightarrow> 'h M6502 option" where
  "idy_Undoc_T6 s = do {
     s \<leftarrow> BUS_WRITE (ea s) (ucast (value16 s)) s;
     Some (s\<lparr>addressModeCycleFn := Stage idy_Undoc T7\<rparr>) }"
definition idy_Undoc_T7 :: "M6502_cpp \<Rightarrow> 'h M6502 \<Rightarrow> 'h M6502 option" where
  "idy_Undoc_T7 X s = ExecuteOpcode X s"
text \<open>Read-modify-write: zero page, absolute, zero page indexed, absolute indexed.\<close>
definition zp_4_1_T1 :: "'h M6502 \<Rightarrow> 'h M6502 option" where
  "zp_4_1_T1 s = do {
     (b, s) \<leftarrow> BUS_READ (pc s) s;
     Some (s\<lparr>pc := pc s + 1, ea := ucast b, addressModeCycleFn := Stage zp_4_1 T2\<rparr>) }"
definition zp_4_1_T2 :: "'h M6502 \<Rightarrow> 'h M6502 option" where
  "zp_4_1_T2 s = do {
     (b, s) \<leftarrow> BUS_READ (ea s) s;
     Some (s\<lparr>value16 := ucast b, addressModeCycleFn := Stage zp_4_1 T3\<rparr>) }"
definition zp_4_1_T3 :: "'h M6502 \<Rightarrow> 'h M6502 option" where
  "zp_4_1_T3 s = do {
     s \<leftarrow> BUS_WRITE (ea s) (ucast (value16 s)) s;
     Some (s\<lparr>addressModeCycleFn := Stage zp_4_1 T4\<rparr>) }"
definition zp_4_1_T4 :: "M6502_cpp \<Rightarrow> 'h M6502 \<Rightarrow> 'h M6502 option" where
  "zp_4_1_T4 X s = ExecuteOpcode X s"
definition abs_4_2_T1 :: "'h M6502 \<Rightarrow> 'h M6502 option" where
  "abs_4_2_T1 s = do {
     (b, s) \<leftarrow> BUS_READ (pc s) s;
     Some (s\<lparr>pc := pc s + 1, ea := ucast b, addressModeCycleFn := Stage abs_4_2 T2\<rparr>) }"
definition abs_4_2_T2 :: "'h M6502 \<Rightarrow> 'h M6502 option" where
  "abs_4_2_T2 s = do {
     (b, s) \<leftarrow> BUS_READ (pc s) s;
     Some (s\<lparr>pc := pc s + 1, ea := ea s OR push_bit 8 (ucast b), addressModeCycleFn := Stage abs_4_2 T3\<rparr>) }"
definition abs_4_2_T3 :: "'h M6502 \<Rightarrow> 'h M6502 option" where
  "abs_4_2_T3 s = do {
     (b, s) \<leftarrow> BUS_READ (ea s) s;
     Some (s\<lparr>value16 := ucast b, addressModeCycleFn := Stage abs_4_2 T4\<rparr>) }"
definition abs_4_2_T4 :: "'h M6502 \<Rightarrow> 'h M6502 option" where
  "abs_4_2_T4 s = do {
     s \<leftarrow> BUS_WRITE (ea s) (ucast (value16 s)) s;
     Some (s\<lparr>addressModeCycleFn := Stage abs_4_2 T5\<rparr>) }"
definition abs_4_2_T5 :: "M6502_cpp \<Rightarrow> 'h M6502 \<Rightarrow> 'h M6502 option" where
  "abs_4_2_T5 X s = ExecuteOpcode X s"
definition zpx_4_3_T1 :: "'h M6502 \<Rightarrow> 'h M6502 option" where
  "zpx_4_3_T1 s = do {
     (b, s) \<leftarrow> BUS_READ (pc s) s;
     Some (s\<lparr>pc := pc s + 1, ea := ucast b, addressModeCycleFn := Stage zpx_4_3 T2\<rparr>) }"
definition zpx_4_3_T2 :: "'h M6502 \<Rightarrow> 'h M6502 option" where
  "zpx_4_3_T2 s = do {
     (b, s) \<leftarrow> BUS_READ (ea s) s;
     Some (s\<lparr>addressModeCycleFn := Stage zpx_4_3 T3\<rparr>) }"
definition zpx_4_3_T3 :: "'h M6502 \<Rightarrow> 'h M6502 option" where
  "zpx_4_3_T3 s = (let s = s\<lparr>ea := (ea s + ucast (x s)) AND 0xFF\<rparr> in do {
     (b, s) \<leftarrow> BUS_READ (ea s) s;
     Some (s\<lparr>value16 := ucast b, addressModeCycleFn := Stage zpx_4_3 T4\<rparr>) })"
definition zpx_4_3_T4 :: "'h M6502 \<Rightarrow> 'h M6502 option" where
  "zpx_4_3_T4 s = do {
     s \<leftarrow> BUS_WRITE (ea s) (ucast (value16 s)) s;
     Some (s\<lparr>addressModeCycleFn := Stage zpx_4_3 T5\<rparr>) }"
definition zpx_4_3_T5 :: "M6502_cpp \<Rightarrow> 'h M6502 \<Rightarrow> 'h M6502 option" where
  "zpx_4_3_T5 X s = ExecuteOpcode X s"
definition absx_4_4_T1 :: "'h M6502 \<Rightarrow> 'h M6502 option" where
  "absx_4_4_T1 s = do {
     (b, s) \<leftarrow> BUS_READ (pc s) s;
     Some (s\<lparr>pc := pc s + 1, ea := ucast b, addressModeCycleFn := Stage absx_4_4 T2\<rparr>) }"
definition absx_4_4_T2 :: "'h M6502 \<Rightarrow> 'h M6502 option" where
  "absx_4_4_T2 s = do {
     (b, s) \<leftarrow> BUS_READ (pc s) s;
     Some (s\<lparr>pc := pc s + 1, ea := ea s OR push_bit 8 (ucast b), addressModeCycleFn := Stage absx_4_4 T3\<rparr>) }"
definition absx_4_4_T3 :: "'h M6502 \<Rightarrow> 'h M6502 option" where
  "absx_4_4_T3 s = (let s = s\<lparr>ea := ea s + ucast (x s)\<rparr> in do {
     (b, s) \<leftarrow> BUS_READ (ea s) s;
     Some (s\<lparr>addressModeCycleFn := Stage absx_4_4 T4\<rparr>) })"
definition absx_4_4_T4 :: "'h M6502 \<Rightarrow> 'h M6502 option" where
  "absx_4_4_T4 s = do {
     (b, s) \<leftarrow> BUS_READ (ea s) s;
     Some (s\<lparr>value16 := ucast b, addressModeCycleFn := Stage absx_4_4 T5\<rparr>) }"
definition absx_4_4_T5 :: "'h M6502 \<Rightarrow> 'h M6502 option" where
  "absx_4_4_T5 s = do {
     s \<leftarrow> BUS_WRITE (ea s) (ucast (value16 s)) s;
     Some (s\<lparr>addressModeCycleFn := Stage absx_4_4 T6\<rparr>) }"
definition absx_4_4_T6 :: "M6502_cpp \<Rightarrow> 'h M6502 \<Rightarrow> 'h M6502 option" where
  "absx_4_4_T6 X s = ExecuteOpcode X s"
definition absy_4_4_T1 :: "'h M6502 \<Rightarrow> 'h M6502 option" where
  "absy_4_4_T1 s = do {
     (b, s) \<leftarrow> BUS_READ (pc s) s;
     Some (s\<lparr>pc := pc s + 1, ea := ucast b, addressModeCycleFn := Stage absy_4_4 T2\<rparr>) }"
definition absy_4_4_T2 :: "'h M6502 \<Rightarrow> 'h M6502 option" where
  "absy_4_4_T2 s = do {
     (b, s) \<leftarrow> BUS_READ (pc s) s;
     Some (s\<lparr>pc := pc s + 1, ea := ea s OR push_bit 8 (ucast b), addressModeCycleFn := Stage absy_4_4 T3\<rparr>) }"
definition absy_4_4_T3 :: "'h M6502 \<Rightarrow> 'h M6502 option" where
  "absy_4_4_T3 s = (let s = s\<lparr>ea := ea s + ucast (y s)\<rparr> in do {
     (b, s) \<leftarrow> BUS_READ (ea s) s;
     Some (s\<lparr>addressModeCycleFn := Stage absy_4_4 T4\<rparr>) })"
definition absy_4_4_T4 :: "'h M6502 \<Rightarrow> 'h M6502 option" where
  "absy_4_4_T4 s = do {
     (b, s) \<leftarrow> BUS_READ (ea s) s;
     Some (s\<lparr>value16 := ucast b, addressModeCycleFn := Stage absy_4_4 T5\<rparr>) }"
definition absy_4_4_T5 :: "'h M6502 \<Rightarrow> 'h M6502 option" where
  "absy_4_4_T5 s = do {
     s \<leftarrow> BUS_WRITE (ea s) (ucast (value16 s)) s;
     Some (s\<lparr>addressModeCycleFn := Stage absy_4_4 T6\<rparr>) }"
definition absy_4_4_T6 :: "M6502_cpp \<Rightarrow> 'h M6502 \<Rightarrow> 'h M6502 option" where
  "absy_4_4_T6 X s = ExecuteOpcode X s"
text \<open>Stack instructions, subroutine and interrupt returns, jumps.\<close>
definition ph_5_1_T1 :: "'h M6502 \<Rightarrow> 'h M6502 option" where
  "ph_5_1_T1 s = do {
     (b, s) \<leftarrow> BUS_READ (pc s) s;
     Some (s\<lparr>addressModeCycleFn := Stage ph_5_1 T2\<rparr>) }"
definition ph_5_1_T2 :: "M6502_cpp \<Rightarrow> 'h M6502 \<Rightarrow> 'h M6502 option" where
  "ph_5_1_T2 X s = ExecuteOpcode X s"
definition pl_5_2_T1 :: "'h M6502 \<Rightarrow> 'h M6502 option" where
  "pl_5_2_T1 s = do {
     (b, s) \<leftarrow> BUS_READ (pc s) s;
     Some (s\<lparr>addressModeCycleFn := Stage pl_5_2 T2\<rparr>) }"
definition pl_5_2_T2 :: "'h M6502 \<Rightarrow> 'h M6502 option" where
  "pl_5_2_T2 s = do {
     (b, s) \<leftarrow> BUS_READ (0x100 + ucast (sp s)) s;
     Some (s\<lparr>addressModeCycleFn := Stage pl_5_2 T3\<rparr>) }"
definition pl_5_2_T3 :: "M6502_cpp \<Rightarrow> 'h M6502 \<Rightarrow> 'h M6502 option" where
  "pl_5_2_T3 X s = ExecuteOpcode X s"
definition jsr_5_3_T1 :: "'h M6502 \<Rightarrow> 'h M6502 option" where
  "jsr_5_3_T1 s = do {
     (b, s) \<leftarrow> BUS_READ (pc s) s;
     Some (s\<lparr>pc := pc s + 1, ea := ucast b, addressModeCycleFn := Stage jsr_5_3 T2\<rparr>) }"
definition jsr_5_3_T2 :: "'h M6502 \<Rightarrow> 'h M6502 option" where
  "jsr_5_3_T2 s = do {
     (b, s) \<leftarrow> BUS_READ (0x100 + ucast (sp s)) s;
     Some (s\<lparr>addressModeCycleFn := Stage jsr_5_3 T3\<rparr>) }"
definition jsr_5_3_T3 :: "'h M6502 \<Rightarrow> 'h M6502 option" where
  "jsr_5_3_T3 s = do {
     s \<leftarrow> Push (ucast (drop_bit 8 (pc s))) s;
     Some (s\<lparr>addressModeCycleFn := Stage jsr_5_3 T4\<rparr>) }"
definition jsr_5_3_T4 :: "'h M6502 \<Rightarrow> 'h M6502 option" where
  "jsr_5_3_T4 s = do {
     s \<leftarrow> Push (ucast (pc s AND 0xff)) s;
     Some (s\<lparr>addressModeCycleFn := Stage jsr_5_3 T5\<rparr>) }"
definition jsr_5_3_T5 :: "M6502_cpp \<Rightarrow> 'h M6502 \<Rightarrow> 'h M6502 option" where
  "jsr_5_3_T5 X s = do {
     (b, s) \<leftarrow> BUS_READ (pc s) s;
     let s = s\<lparr>pc := pc s + 1, ea := ea s OR push_bit 8 (ucast b)\<rparr>;
     ExecuteOpcode X (s\<lparr>pc := ea s\<rparr>) }"
definition rti_5_5_T1 :: "'h M6502 \<Rightarrow> 'h M6502 option" where
  "rti_5_5_T1 s = do {
     (b, s) \<leftarrow> BUS_READ (pc s) s;
     Some (s\<lparr>pc := pc s + 1, addressModeCycleFn := Stage rti_5_5 T2\<rparr>) }"
definition rti_5_5_T2 :: "'h M6502 \<Rightarrow> 'h M6502 option" where
  "rti_5_5_T2 s = do {
     (b, s) \<leftarrow> BUS_READ (0x100 + ucast (sp s)) s;
     Some (s\<lparr>addressModeCycleFn := Stage rti_5_5 T3\<rparr>) }"
definition rti_5_5_T3 :: "'h M6502 \<Rightarrow> 'h M6502 option" where
  "rti_5_5_T3 s = do {
     (b, s) \<leftarrow> Pull s;
     Some (s\<lparr>status := b, addressModeCycleFn := Stage rti_5_5 T4\<rparr>) }"
definition rti_5_5_T4 :: "'h M6502 \<Rightarrow> 'h M6502 option" where
  "rti_5_5_T4 s = do {
     (b, s) \<leftarrow> Pull s;
     Some (s\<lparr>pc := ucast b, addressModeCycleFn := Stage rti_5_5 T5\<rparr>) }"
definition rti_5_5_T5 :: "M6502_cpp \<Rightarrow> 'h M6502 \<Rightarrow> 'h M6502 option" where
  "rti_5_5_T5 X s = do {
     (b, s) \<leftarrow> Pull s;
     ExecuteOpcode X (s\<lparr>pc := pc s OR push_bit 8 (ucast b)\<rparr>) }"
definition abs5_6_1_T1 :: "'h M6502 \<Rightarrow> 'h M6502 option" where
  "abs5_6_1_T1 s = do {
     (b, s) \<leftarrow> BUS_READ (pc s) s;
     Some (s\<lparr>pc := pc s + 1, ea := ucast b, addressModeCycleFn := Stage abs5_6_1 T2\<rparr>) }"
definition abs5_6_1_T2 :: "M6502_cpp \<Rightarrow> 'h M6502 \<Rightarrow> 'h M6502 option" where
  "abs5_6_1_T2 X s = do {
     (b, s) \<leftarrow> BUS_READ (pc s) s;
     ExecuteOpcode X (s\<lparr>pc := pc s + 1, ea := ea s OR push_bit 8 (ucast b)\<rparr>) }"
definition abs5_6_2_T1 :: "'h M6502 \<Rightarrow> 'h M6502 option" where
  "abs5_6_2_T1 s = do {
     (b, s) \<leftarrow> BUS_READ (pc s) s;
     Some (s\<lparr>pc := pc s + 1, ia := ucast b, addressModeCycleFn := Stage abs5_6_2 T2\<rparr>) }"
definition abs5_6_2_T2 :: "'h M6502 \<Rightarrow> 'h M6502 option" where
  "abs5_6_2_T2 s = do {
     (b, s) \<leftarrow> BUS_READ (pc s) s;
     Some (s\<lparr>pc := pc s + 1, ia := ia s OR push_bit 8 (ucast b), addressModeCycleFn := Stage abs5_6_2 T3\<rparr>) }"
definition abs5_6_2_T3 :: "'h M6502 \<Rightarrow> 'h M6502 option" where
  "abs5_6_2_T3 s = do {
     (b, s) \<leftarrow> BUS_READ (ia s) s;
     Some (s\<lparr>ia := ia s + 1, ea := ucast b, addressModeCycleFn := Stage abs5_6_2 T4\<rparr>) }"
definition abs5_6_2_T4 :: "M6502_cpp \<Rightarrow> 'h M6502 \<Rightarrow> 'h M6502 option" where
  "abs5_6_2_T4 X s = do {
     (b, s) \<leftarrow> BUS_READ (ia s) s;
     ExecuteOpcode X (s\<lparr>ea := ea s OR push_bit 8 (ucast b)\<rparr>) }"
definition rts_5_7_T1 :: "'h M6502 \<Rightarrow> 'h M6502 option" where
  "rts_5_7_T1 s = do {
     (b, s) \<leftarrow> BUS_READ (pc s) s;
     Some (s\<lparr>pc := pc s + 1, addressModeCycleFn := Stage rts_5_7 T2\<rparr>) }"
definition rts_5_7_T2 :: "'h M6502 \<Rightarrow> 'h M6502 option" where
  "rts_5_7_T2 s = do {
     (b, s) \<leftarrow> BUS_READ (0x100 + ucast (sp s)) s;
     Some (s\<lparr>addressModeCycleFn := Stage rts_5_7 T3\<rparr>) }"
definition rts_5_7_T3 :: "'h M6502 \<Rightarrow> 'h M6502 option" where
  "rts_5_7_T3 s = do {
     (b, s) \<leftarrow> Pull s;
     Some (s\<lparr>pc := ucast b, addressModeCycleFn := Stage rts_5_7 T4\<rparr>) }"
definition rts_5_7_T4 :: "'h M6502 \<Rightarrow> 'h M6502 option" where
  "rts_5_7_T4 s = do {
     (b, s) \<leftarrow> Pull s;
     Some (s\<lparr>pc := pc s OR push_bit 8 (ucast b), addressModeCycleFn := Stage rts_5_7 T5\<rparr>) }"
definition rts_5_7_T5 :: "M6502_cpp \<Rightarrow> 'h M6502 \<Rightarrow> 'h M6502 option" where
  "rts_5_7_T5 X s = do {
     (b, s) \<leftarrow> BUS_READ (pc s) s;
     ExecuteOpcode X (s\<lparr>pc := pc s + 1\<rparr>) }"
text \<open>BRK (T4 is only declared in the header, see below).\<close>
definition brk_5_4_T1 :: "'h M6502 \<Rightarrow> 'h M6502 option" where
  "brk_5_4_T1 s = do {
     (b, s) \<leftarrow> BUS_READ (pc s) s;
     Some (s\<lparr>pc := pc s + 1, addressModeCycleFn := Stage brk_5_4 T2\<rparr>) }"
definition brk_5_4_T2 :: "'h M6502 \<Rightarrow> 'h M6502 option" where
  "brk_5_4_T2 s = do {
     s \<leftarrow> Push (ucast (drop_bit 8 (pc s))) s;
     Some (s\<lparr>addressModeCycleFn := Stage brk_5_4 T3\<rparr>) }"
definition brk_5_4_T3 :: "'h M6502 \<Rightarrow> 'h M6502 option" where
  "brk_5_4_T3 s = do {
     s \<leftarrow> Push (ucast (pc s AND 0xff)) s;
     Some (s\<lparr>addressModeCycleFn := Stage brk_5_4 T4\<rparr>) }"
definition brk_5_4_T5 :: "'h M6502 \<Rightarrow> 'h M6502 option" where
  "brk_5_4_T5 s = do {
     (b, s) \<leftarrow> BUS_READ (0xFFFE) s;
     Some (s\<lparr>ea := ucast b, addressModeCycleFn := Stage brk_5_4 T6\<rparr>) }"
definition brk_5_4_T6 :: "M6502_cpp \<Rightarrow> 'h M6502 \<Rightarrow> 'h M6502 option" where
  "brk_5_4_T6 X s = (let s = SetI s in do {
     (b, s) \<leftarrow> BUS_READ 0xFFFF s;
     ExecuteOpcode X (s\<lparr>pc := ea s OR push_bit 8 (ucast b)\<rparr>) })"
text \<open>The reset sequence.\<close>
definition Reset_T0 :: "'h M6502 \<Rightarrow> 'h M6502 option" where
  "Reset_T0 s = (let s = s\<lparr>sp := 0\<rparr> in do {
     (b, s) \<leftarrow> BUS_READ (pc s) s;
     Some (s\<lparr>addressModeCycleFn := Stage Reset_seq T1\<rparr>) })"
definition Reset_T1 :: "'h M6502 \<Rightarrow> 'h M6502 option" where
  "Reset_T1 s = do {
     (b, s) \<leftarrow> BUS_READ (pc s) s;
     Some (s\<lparr>addressModeCycleFn := Stage Reset_seq T2\<rparr>) }"
definition Reset_T2 :: "'h M6502 \<Rightarrow> 'h M6502 option" where
  "Reset_T2 s = do {
     (b, s) \<leftarrow> BUS_READ (0x100 + ucast (sp s)) s;
     Some (s\<lparr>sp := sp s - 1, addressModeCycleFn := Stage Reset_seq T3\<rparr>) }"
definition Reset_T3 :: "'h M6502 \<Rightarrow> 'h M6502 option" where
  "Reset_T3 s = do {
     (b, s) \<leftarrow> BUS_READ (0x100 + ucast (sp s)) s;
     Some (s\<lparr>sp := sp s - 1, addressModeCycleFn := Stage Reset_seq T4\<rparr>) }"
definition Reset_T4 :: "'h M6502 \<Rightarrow> 'h M6502 option" where
  "Reset_T4 s = (let s = ClearB s in do {
     (b, s) \<leftarrow> BUS_READ (0x100 + ucast (sp s)) s;
     Some (s\<lparr>sp := sp s - 1, addressModeCycleFn := Stage Reset_seq T5\<rparr>) })"
definition Reset_T5 :: "'h M6502 \<Rightarrow> 'h M6502 option" where
  "Reset_T5 s = do {
     (b, s) \<leftarrow> BUS_READ (0xFFFC) s;
     Some (s\<lparr>ea := ucast b, addressModeCycleFn := Stage Reset_seq T6\<rparr>) }"
definition Reset_T6 :: "'h M6502 \<Rightarrow> 'h M6502 option" where
  "Reset_T6 s = do {
     (b, s) \<leftarrow> BUS_READ (0xFFFD) s;
     Some (s\<lparr>pc := ea s OR push_bit 8 (ucast b), addressModeCycleFn := PtrInstructionFetch\<rparr>) }"
text \<open>The IRQ sequence (T4 is only declared in the header, see below).\<close>
definition IRQ_T1 :: "'h M6502 \<Rightarrow> 'h M6502 option" where
  "IRQ_T1 s = do {
     (b, s) \<leftarrow> BUS_READ (pc s) s;
     Some (s\<lparr>addressModeCycleFn := Stage IRQ_seq T2\<rparr>) }"
definition IRQ_T2 :: "'h M6502 \<Rightarrow> 'h M6502 option" where
  "IRQ_T2 s = do {
     s \<leftarrow> Push (ucast (drop_bit 8 (pc s))) s;
     Some (s\<lparr>addressModeCycleFn := Stage IRQ_seq T3\<rparr>) }"
definition IRQ_T3 :: "'h M6502 \<Rightarrow> 'h M6502 option" where
  "IRQ_T3 s = do {
     s \<leftarrow> Push (ucast (pc s AND 0xff)) s;
     Some (s\<lparr>addressModeCycleFn := Stage IRQ_seq T4\<rparr>) }"
definition IRQ_T5 :: "'h M6502 \<Rightarrow> 'h M6502 option" where
  "IRQ_T5 s = do {
     (b, s) \<leftarrow> BUS_READ (0xFFFE) s;
     Some (s\<lparr>ea := ucast b, addressModeCycleFn := Stage IRQ_seq T6\<rparr>) }"
definition IRQ_T6 :: "'h M6502 \<Rightarrow> 'h M6502 option" where
  "IRQ_T6 s = (let s = SetI s in do {
     (b, s) \<leftarrow> BUS_READ 0xFFFF s;
     Some (s\<lparr>pc := ea s OR push_bit 8 (ucast b), addressModeCycleFn := PtrInstructionFetchIRQ\<rparr>) })"

subsection \<open>Functions the header only declares\<close>

text \<open>
  Modelled from the spec: \<^verbatim>\<open>rel_5_8_T2\<close> is declared in the header and defined in
  \<^verbatim>\<open>m6502.cpp\<close>, which is not among the sources. Spec section 4.5: in T2 a taken branch
  makes a dummy read of the non-page-crossed target (the \<^verbatim>\<open>pc\<close> that the macro
  \<^verbatim>\<open>BRANCH_CONDITION\<close> left) and ends there when the destination \<^verbatim>\<open>oldpc + ra\<close> is on the
  page of \<^verbatim>\<open>oldpc\<close>, with \<^verbatim>\<open>BranchTakenMaskingInterrupt\<close> set for the three-cycle branch;
  otherwise one more cycle follows. The header's \<^verbatim>\<open>rel_5_8_T3\<close> only reads at \<^verbatim>\<open>pc\<close>, so
  the corrected \<^verbatim>\<open>pc\<close> of a page-crossing branch is stored here.
\<close>

definition rel_5_8_T2 :: "'h M6502 \<Rightarrow> 'h M6502 option" where
  "rel_5_8_T2 s = do {
     (b, s) \<leftarrow> BUS_READ (pc s) s;
     Some (if (ia s + ea s) AND 0xff00 = ia s AND 0xff00
           then s\<lparr>BranchTakenMaskingInterrupt := True,
                  addressModeCycleFn := PtrInstructionFetch\<rparr>
           else s\<lparr>pc := ia s + ea s, addressModeCycleFn := Stage rel_5_8 T3\<rparr>) }"

text \<open>
  Modelled from the spec: \<^verbatim>\<open>absx_2_5_T3\<close>, \<^verbatim>\<open>absy_2_5_T3\<close> and \<^verbatim>\<open>idy_2_7_T4\<close> are declared in
  the header and defined in \<^verbatim>\<open>m6502.cpp\<close>. Spec section 4.3 (absolute,X / ,Y read and
  (zp),Y read): "if page cross, dummy read of wrong-page addr then read real addr; else
  read; execute"; section 8: the dummy read is at the pre-carry address.
\<close>

definition indexed_read_T3 ::
  "M6502_cpp \<Rightarrow> u8 \<Rightarrow> AddressModeCycleFunction \<Rightarrow> 'h M6502 \<Rightarrow> 'h M6502 option" where
  "indexed_read_T3 X idx next_stage s =
     (let target = ea s + ucast idx in
      if target AND 0xff00 \<noteq> ea s AND 0xff00
      then do {
        (b, s) \<leftarrow> BUS_READ ((ea s AND 0xff00) OR (target AND 0xff)) s;
        Some (s\<lparr>ea := target, addressModeCycleFn := next_stage\<rparr>) }
      else do {
        (b, s) \<leftarrow> BUS_READ target s;
        ExecuteOpcode X (s\<lparr>ea := target, value16 := ucast b\<rparr>) })"

definition absx_2_5_T3 :: "M6502_cpp \<Rightarrow> 'h M6502 \<Rightarrow> 'h M6502 option" where
  "absx_2_5_T3 X s = indexed_read_T3 X (x s) (Stage absx_2_5 T4) s"
definition absy_2_5_T3 :: "M6502_cpp \<Rightarrow> 'h M6502 \<Rightarrow> 'h M6502 option" where
  "absy_2_5_T3 X s = indexed_read_T3 X (y s) (Stage absy_2_5 T4) s"
definition idy_2_7_T4 :: "M6502_cpp \<Rightarrow> 'h M6502 \<Rightarrow> 'h M6502 option" where
  "idy_2_7_T4 X s = indexed_read_T3 X (y s) (Stage idy_2_7 T5) s"

text \<open>
  Modelled from the spec: \<^verbatim>\<open>brk_5_4_T4\<close> and \<^verbatim>\<open>IRQ_T4\<close> are declared in the header and
  defined in \<^verbatim>\<open>m6502.cpp\<close>. Spec section 4.6, step 4, without the NMI latch (NMI support is
  not compiled): "Clear B on the pushed status copy for hardware IRQ/NMI; set B for BRK.
  Push status. Set I."
\<close>

definition brk_5_4_T4 :: "'h M6502 \<Rightarrow> 'h M6502 option" where
  "brk_5_4_T4 s = do {
     s \<leftarrow> Push (status s OR FLAG_BREAK) s;
     Some ((SetI s)\<lparr>addressModeCycleFn := Stage brk_5_4 T5\<rparr>) }"
definition IRQ_T4 :: "'h M6502 \<Rightarrow> 'h M6502 option" where
  "IRQ_T4 s = do {
     s \<leftarrow> Push (status s AND NOT FLAG_BREAK) s;
     Some ((SetI s)\<lparr>addressModeCycleFn := Stage IRQ_seq T5\<rparr>) }"

text \<open>
  Modelled from the spec: \<^verbatim>\<open>InstructionFetch\<close> and \<^verbatim>\<open>InstructionFetchIRQ\<close> are declared in
  the header and defined in \<^verbatim>\<open>m6502.cpp\<close>. Spec section 4.2: the fetch "reads the byte at
  pc, increments pc, stores it in opcode, looks up both the T1 address-mode stage and the
  opcode body in two 256-entry tables, assigns them, and returns". Section 4.6: the poll
  is made at the entry of \<^verbatim>\<open>InstructionFetch\<close>; an IRQ is serviced when the line is
  asserted, I is clear and neither masking flag is set, otherwise the next instruction is
  fetched; a masking flag lasts for one instruction. Servicing is the seven-cycle sequence
  of which this cycle, a read at \<^verbatim>\<open>pc\<close>, is the first and \<^verbatim>\<open>IRQ_T1\<close> the second. After the
  sequence the CPU "returns to fetch": \<^verbatim>\<open>InstructionFetchIRQ\<close> fetches without polling.
  Section 4.4: "JAM: freeze CPU; subsequent Step() calls perform a dummy read at pc and do
  not advance"; section 7: a JAM is "a defined state that stalls the CPU until external
  reset"; section 8: while JAMmed a \<^verbatim>\<open>Step()\<close> is "one read, no advance". The header's
  \<^verbatim>\<open>JAM\<close> has an empty body and \<^verbatim>\<open>sb_jam_T1\<close> hands over to \<^verbatim>\<open>InstructionFetch\<close> like every
  other opcode, and the class has no member for a jam of its own: at the entry of the
  fetch the jam is the state in which the opcode function last selected is \<^verbatim>\<open>JAM\<close>. It
  comes before the interrupt poll, the CPU being stalled.
\<close>

definition FetchOpcode :: "M6502_cpp \<Rightarrow> 'h M6502 \<Rightarrow> 'h M6502 option" where
  "FetchOpcode X s = do {
     (b, s) \<leftarrow> BUS_READ (pc s) s;
     Some (s\<lparr>pc := pc s + 1, opcode := b,
             opcodeCycleFn := opcodeFunctions X b,
             addressModeCycleFn := T1AddressModeFunctions X b,
             CLIMaskingInterrupt := False,
             BranchTakenMaskingInterrupt := False\<rparr>) }"

definition InstructionFetch :: "M6502_cpp \<Rightarrow> 'h M6502 \<Rightarrow> 'h M6502 option" where
  "InstructionFetch X s =
     (if opcodeCycleFn s = OP_JAM
      then do {
        (b, s) \<leftarrow> BUS_READ (pc s) s;
        Some s }
      else if IRQ s \<and> status s AND FLAG_INTERRUPT = 0
         \<and> \<not> CLIMaskingInterrupt s \<and> \<not> BranchTakenMaskingInterrupt s
      then do {
        (b, s) \<leftarrow> BUS_READ (pc s) s;
        Some (s\<lparr>addressModeCycleFn := Stage IRQ_seq T1\<rparr>) }
      else FetchOpcode X s)"

definition InstructionFetchIRQ :: "M6502_cpp \<Rightarrow> 'h M6502 \<Rightarrow> 'h M6502 option" where
  "InstructionFetchIRQ X s = FetchOpcode X s"

subsection \<open>Calling through \<^verbatim>\<open>addressModeCycleFn\<close>\<close>

text \<open>
  \<^verbatim>\<open>(this->*M6502::addressModeCycleFn)()\<close>: each pointer calls the function it names. The
  class has no member function for the remaining pairs of a chain and a T-stage, the code
  never stores such a pointer, and the call has no result.
\<close>

definition call_stage :: "M6502_cpp \<Rightarrow> AddressModeCycleFunction \<Rightarrow> 'h M6502 \<Rightarrow> 'h M6502 option" where
  "call_stage X f s =
     (case f of
        PtrInstructionFetch \<Rightarrow> InstructionFetch X s
      | PtrInstructionFetchIRQ \<Rightarrow> InstructionFetchIRQ X s
      | Stage m t \<Rightarrow>
         (case m of
              sb_1 \<Rightarrow> (case t of T1 \<Rightarrow> sb_1_T1 X s | _ \<Rightarrow> None)
            | sb_jam \<Rightarrow> (case t of T1 \<Rightarrow> sb_jam_T1 X s | _ \<Rightarrow> None)
            | imm_2_1 \<Rightarrow> (case t of T1 \<Rightarrow> imm_2_1_T1 X s | _ \<Rightarrow> None)
            | rel_5_8 \<Rightarrow> (case t of T1 \<Rightarrow> rel_5_8_T1 X s | T2 \<Rightarrow> rel_5_8_T2 s | T3 \<Rightarrow> rel_5_8_T3 s | _ \<Rightarrow> None)
            | zp_2_1 \<Rightarrow> (case t of T1 \<Rightarrow> zp_2_1_T1 s | T2 \<Rightarrow> zp_2_1_T2 X s | _ \<Rightarrow> None)
            | zp_3_1 \<Rightarrow> (case t of T1 \<Rightarrow> zp_3_1_T1 s | T2 \<Rightarrow> zp_3_1_T2 X s | _ \<Rightarrow> None)
            | abs_2_3 \<Rightarrow> (case t of T1 \<Rightarrow> abs_2_3_T1 s | T2 \<Rightarrow> abs_2_3_T2 s | T3 \<Rightarrow> abs_2_3_T3 X s | _ \<Rightarrow> None)
            | abs_3_2 \<Rightarrow> (case t of T1 \<Rightarrow> abs_3_2_T1 s | T2 \<Rightarrow> abs_3_2_T2 s | T3 \<Rightarrow> abs_3_2_T3 X s | _ \<Rightarrow> None)
            | idx_2_4 \<Rightarrow> (case t of T1 \<Rightarrow> idx_2_4_T1 s | T2 \<Rightarrow> idx_2_4_T2 s | T3 \<Rightarrow> idx_2_4_T3 s | T4 \<Rightarrow> idx_2_4_T4 s | T5 \<Rightarrow> idx_2_4_T5 X s | _ \<Rightarrow> None)
            | idx_3_3 \<Rightarrow> (case t of T1 \<Rightarrow> idx_3_3_T1 s | T2 \<Rightarrow> idx_3_3_T2 s | T3 \<Rightarrow> idx_3_3_T3 s | T4 \<Rightarrow> idx_3_3_T4 s | T5 \<Rightarrow> idx_3_3_T5 X s | _ \<Rightarrow> None)
            | idx_Undoc \<Rightarrow> (case t of T1 \<Rightarrow> idx_Undoc_T1 s | T2 \<Rightarrow> idx_Undoc_T2 s | T3 \<Rightarrow> idx_Undoc_T3 s | T4 \<Rightarrow> idx_Undoc_T4 s | T5 \<Rightarrow> idx_Undoc_T5 s | T6 \<Rightarrow> idx_Undoc_T6 s | T7 \<Rightarrow> idx_Undoc_T7 X s | _ \<Rightarrow> None)
            | absx_2_5 \<Rightarrow> (case t of T1 \<Rightarrow> absx_2_5_T1 s | T2 \<Rightarrow> absx_2_5_T2 s | T3 \<Rightarrow> absx_2_5_T3 X s | T4 \<Rightarrow> absx_2_5_T4 X s | _ \<Rightarrow> None)
            | absx_3_4 \<Rightarrow> (case t of T1 \<Rightarrow> absx_3_4_T1 s | T2 \<Rightarrow> absx_3_4_T2 s | T3 \<Rightarrow> absx_3_4_T3 s | T4 \<Rightarrow> absx_3_4_T4 X s | _ \<Rightarrow> None)
            | absy_2_5 \<Rightarrow> (case t of T1 \<Rightarrow> absy_2_5_T1 s | T2 \<Rightarrow> absy_2_5_T2 s | T3 \<Rightarrow> absy_2_5_T3 X s | T4 \<Rightarrow> absy_2_5_T4 X s | _ \<Rightarrow> None)
            | absy_3_4 \<Rightarrow> (case t of T1 \<Rightarrow> absy_3_4_T1 s | T2 \<Rightarrow> absy_3_4_T2 s | T3 \<Rightarrow> absy_3_4_T3 s | T4 \<Rightarrow> absy_3_4_T4 X s | _ \<Rightarrow> None)
            | zpx_2_6 \<Rightarrow> (case t of T1 \<Rightarrow> zpx_2_6_T1 s | T2 \<Rightarrow> zpx_2_6_T2 s | T3 \<Rightarrow> zpx_2_6_T3 X s | _ \<Rightarrow> None)
            | zpx_3_5 \<Rightarrow> (case t of T1 \<Rightarrow> zpx_3_5_T1 s | T2 \<Rightarrow> zpx_3_5_T2 s | T3 \<Rightarrow> zpx_3_5_T3 X s | _ \<Rightarrow> None)
            | zpy_2_6 \<Rightarrow> (case t of T1 \<Rightarrow> zpy_2_6_T1 s | T2 \<Rightarrow> zpy_2_6_T2 s | T3 \<Rightarrow> zpy_2_6_T3 X s | _ \<Rightarrow> None)
            | zpy_3_5 \<Rightarrow> (case t of T1 \<Rightarrow> zpy_3_5_T1 s | T2 \<Rightarrow> zpy_3_5_T2 s | T3 \<Rightarrow> zpy_3_5_T3 X s | _ \<Rightarrow> None)
            | idy_2_7 \<Rightarrow> (case t of T1 \<Rightarrow> idy_2_7_T1 s | T2 \<Rightarrow> idy_2_7_T2 s | T3 \<Rightarrow> idy_2_7_T3 s | T4 \<Rightarrow> idy_2_7_T4 X s | T5 \<Rightarrow> idy_2_7_T5 X s | _ \<Rightarrow> None)
            | idy_3_6 \<Rightarrow> (case t of T1 \<Rightarrow> idy_3_6_T1 s | T2 \<Rightarrow> idy_3_6_T2 s | T3 \<Rightarrow> idy_3_6_T3 s | T4 \<Rightarrow> idy_3_6_T4 s | T5 \<Rightarrow> idy_3_6_T5 X s | _ \<Rightarrow> None)
            | idy_Undoc \<Rightarrow> (case t of T1 \<Rightarrow> idy_Undoc_T1 s | T2 \<Rightarrow> idy_Undoc_T2 s | T3 \<Rightarrow> idy_Undoc_T3 s | T4 \<Rightarrow> idy_Undoc_T4 s | T5 \<Rightarrow> idy_Undoc_T5 s | T6 \<Rightarrow> idy_Undoc_T6 s | T7 \<Rightarrow> idy_Undoc_T7 X s | _ \<Rightarrow> None)
            | zp_4_1 \<Rightarrow> (case t of T1 \<Rightarrow> zp_4_1_T1 s | T2 \<Rightarrow> zp_4_1_T2 s | T3 \<Rightarrow> zp_4_1_T3 s | T4 \<Rightarrow> zp_4_1_T4 X s | _ \<Rightarrow> None)
            | abs_4_2 \<Rightarrow> (case t of T1 \<Rightarrow> abs_4_2_T1 s | T2 \<Rightarrow> abs_4_2_T2 s | T3 \<Rightarrow> abs_4_2_T3 s | T4 \<Rightarrow> abs_4_2_T4 s | T5 \<Rightarrow> abs_4_2_T5 X s | _ \<Rightarrow> None)
            | zpx_4_3 \<Rightarrow> (case t of T1 \<Rightarrow> zpx_4_3_T1 s | T2 \<Rightarrow> zpx_4_3_T2 s | T3 \<Rightarrow> zpx_4_3_T3 s | T4 \<Rightarrow> zpx_4_3_T4 s | T5 \<Rightarrow> zpx_4_3_T5 X s | _ \<Rightarrow> None)
            | absx_4_4 \<Rightarrow> (case t of T1 \<Rightarrow> absx_4_4_T1 s | T2 \<Rightarrow> absx_4_4_T2 s | T3 \<Rightarrow> absx_4_4_T3 s | T4 \<Rightarrow> absx_4_4_T4 s | T5 \<Rightarrow> absx_4_4_T5 s | T6 \<Rightarrow> absx_4_4_T6 X s | _ \<Rightarrow> None)
            | absy_4_4 \<Rightarrow> (case t of T1 \<Rightarrow> absy_4_4_T1 s | T2 \<Rightarrow> absy_4_4_T2 s | T3 \<Rightarrow> absy_4_4_T3 s | T4 \<Rightarrow> absy_4_4_T4 s | T5 \<Rightarrow> absy_4_4_T5 s | T6 \<Rightarrow> absy_4_4_T6 X s | _ \<Rightarrow> None)
            | ph_5_1 \<Rightarrow> (case t of T1 \<Rightarrow> ph_5_1_T1 s | T2 \<Rightarrow> ph_5_1_T2 X s | _ \<Rightarrow> None)
            | pl_5_2 \<Rightarrow> (case t of T1 \<Rightarrow> pl_5_2_T1 s | T2 \<Rightarrow> pl_5_2_T2 s | T3 \<Rightarrow> pl_5_2_T3 X s | _ \<Rightarrow> None)
            | jsr_5_3 \<Rightarrow> (case t of T1 \<Rightarrow> jsr_5_3_T1 s | T2 \<Rightarrow> jsr_5_3_T2 s | T3 \<Rightarrow> jsr_5_3_T3 s | T4 \<Rightarrow> jsr_5_3_T4 s | T5 \<Rightarrow> jsr_5_3_T5 X s | _ \<Rightarrow> None)
            | rti_5_5 \<Rightarrow> (case t of T1 \<Rightarrow> rti_5_5_T1 s | T2 \<Rightarrow> rti_5_5_T2 s | T3 \<Rightarrow> rti_5_5_T3 s | T4 \<Rightarrow> rti_5_5_T4 s | T5 \<Rightarrow> rti_5_5_T5 X s | _ \<Rightarrow> None)
            | abs5_6_1 \<Rightarrow> (case t of T1 \<Rightarrow> abs5_6_1_T1 s | T2 \<Rightarrow> abs5_6_1_T2 X s | _ \<Rightarrow> None)
            | abs5_6_2 \<Rightarrow> (case t of T1 \<Rightarrow> abs5_6_2_T1 s | T2 \<Rightarrow> abs5_6_2_T2 s | T3 \<Rightarrow> abs5_6_2_T3 s | T4 \<Rightarrow> abs5_6_2_T4 X s | _ \<Rightarrow> None)
            | rts_5_7 \<Rightarrow> (case t of T1 \<Rightarrow> rts_5_7_T1 s | T2 \<Rightarrow> rts_5_7_T2 s | T3 \<Rightarrow> rts_5_7_T3 s | T4 \<Rightarrow> rts_5_7_T4 s | T5 \<Rightarrow> rts_5_7_T5 X s | _ \<Rightarrow> None)
            | brk_5_4 \<Rightarrow> (case t of T1 \<Rightarrow> brk_5_4_T1 s | T2 \<Rightarrow> brk_5_4_T2 s | T3 \<Rightarrow> brk_5_4_T3 s | T4 \<Rightarrow> brk_5_4_T4 s | T5 \<Rightarrow> brk_5_4_T5 s | T6 \<Rightarrow> brk_5_4_T6 X s | _ \<Rightarrow> None)
            | Reset_seq \<Rightarrow> (case t of T0 \<Rightarrow> Reset_T0 s | T1 \<Rightarrow> Reset_T1 s | T2 \<Rightarrow> Reset_T2 s | T3 \<Rightarrow> Reset_T3 s | T4 \<Rightarrow> Reset_T4 s | T5 \<Rightarrow> Reset_T5 s | T6 \<Rightarrow> Reset_T6 s | _ \<Rightarrow> None)
            | IRQ_seq \<Rightarrow> (case t of T1 \<Rightarrow> IRQ_T1 s | T2 \<Rightarrow> IRQ_T2 s | T3 \<Rightarrow> IRQ_T3 s | T4 \<Rightarrow> IRQ_T4 s | T5 \<Rightarrow> IRQ_T5 s | T6 \<Rightarrow> IRQ_T6 s | _ \<Rightarrow> None)))"

text \<open>
  Modelled from the spec: \<^verbatim>\<open>Step\<close> and \<^verbatim>\<open>Reset\<close> are declared in the header and defined
  in \<^verbatim>\<open>m6502.cpp\<close>. Spec section 4.2: "Step() calls the function referenced by
  addressModeCycleFn" (RDY halting is not compiled). Sections 3 and 6: after \<^verbatim>\<open>Reset\<close> the
  cursor points at the first stage of the reset sequence, which begins at the next
  \<^verbatim>\<open>Step\<close>.
\<close>

definition Step :: "M6502_cpp \<Rightarrow> 'h M6502 \<Rightarrow> 'h M6502 option" where
  "Step X s = call_stage X (addressModeCycleFn s) s"

definition Reset :: "'h M6502 \<Rightarrow> 'h M6502" where
  "Reset s = s\<lparr>addressModeCycleFn := Stage Reset_seq T0\<rparr>"

subsection \<open>The public interface defined in the header\<close>

definition SetBusFunctions ::
  "'h DataBusReadFn option \<Rightarrow> 'h DataBusWriteFn option \<Rightarrow> 'h M6502 \<Rightarrow> 'h M6502" where
  "SetBusFunctions rd wr s =
     Reset (s\<lparr>dataBusReadFn := rd, dataBusWriteFn := wr, status := FLAG_CONSTANT\<rparr>)"

text \<open>
  The three-argument constructor initialises no member itself: \<open>uninit\<close> is whatever the
  object's storage holds. The constructor has no \<^verbatim>\<open>throw\<close> and no check, so its
  result is always an object; \<open>None\<close> would be a rejected construction.
\<close>

definition M6502_ctor ::
  "'h M6502 \<Rightarrow> 'h DataBusReadFn option \<Rightarrow> 'h DataBusWriteFn option \<Rightarrow> 'h M6502 option" where
  "M6502_ctor uninit rd wr = Some (SetBusFunctions rd wr uninit)"

definition SO :: "'h M6502 \<Rightarrow> 'h M6502" where
  "SO s = SetV s"

definition IRQ_Assert :: "'h M6502 \<Rightarrow> 'h M6502" where
  "IRQ_Assert s = s\<lparr>IRQ := True\<rparr>"
definition IRQ_Release :: "'h M6502 \<Rightarrow> 'h M6502" where
  "IRQ_Release s = s\<lparr>IRQ := False\<rparr>"

definition SYNC :: "'h M6502 \<Rightarrow> bool" where
  "SYNC s \<longleftrightarrow> addressModeCycleFn s = PtrInstructionFetch"

text \<open>Several cycles: \<open>Steps X n\<close> calls \<^verbatim>\<open>Step\<close> \<open>n\<close> times.\<close>

fun Steps :: "M6502_cpp \<Rightarrow> nat \<Rightarrow> 'h M6502 \<Rightarrow> 'h M6502 option" where
  "Steps X 0 s = Some s"
| "Steps X (Suc n) s = (case Step X s of None \<Rightarrow> None | Some s' \<Rightarrow> Steps X n s')"

section \<open>Hosts, sample tables and reachable states\<close>

subsection \<open>A host that is plain memory\<close>

text \<open>The simplest host: 64K of RAM, read and written without side effects.\<close>

definition ram_read :: "(u16 \<Rightarrow> u8) DataBusReadFn" where
  "ram_read addr m = (m addr, m)"
definition ram_write :: "(u16 \<Rightarrow> u8) DataBusWriteFn" where
  "ram_write addr byte m = m(addr := byte)"

text \<open>Storage for an object that no constructor has touched yet, here all zero, beside a host.\<close>

definition raw_storage :: "'h \<Rightarrow> 'h M6502" where
  "raw_storage h =
     \<lparr>ea = 0, ia = 0, value16 = 0, pc = 0, opcode = 0, a = 0, x = 0, y = 0, status = 0, sp = 0,
      CLIMaskingInterrupt = False, BranchTakenMaskingInterrupt = False, IRQPending = False,
      dataBusReadFn = None, dataBusWriteFn = None,
      addressModeCycleFn = PtrInstructionFetch, opcodeCycleFn = OP_NOP,
      IRQ = False, host = h, trace = []\<rparr>"

text \<open>A memory from a list of \<open>(address, byte)\<close> pairs, zero elsewhere.\<close>

fun load :: "(u16 \<times> u8) list \<Rightarrow> u16 \<Rightarrow> u8" where
  "load [] = (\<lambda>_. 0)"
| "load ((addr, byte) # rest) = (load rest)(addr := byte)"

subsection \<open>Sample contents for the parameters\<close>

text \<open>
  Modelled from the spec: the tables of \<^verbatim>\<open>m6502.cpp\<close> are not among the sources. The sample
  tables decode the opcode bytes of the scenarios in spec section 8 (\<open>A9\<close> LDA #, \<open>AA\<close> TAX,
  \<open>0A\<close> ASL A, \<open>A2\<close> LDX #, \<open>E8\<close> INX, \<open>69\<close> ADC #, \<open>CA\<close> DEX, \<open>D0\<close> BNE, \<open>48\<close> PHA,
  \<open>68\<close> PLA) and, in their NMOS 6502 encoding, the instructions of its boundary cases
  (\<open>02\<close> JAM, \<open>28\<close> PLP, \<open>40\<close> RTI, \<open>6C\<close> JMP (ind), \<open>9E\<close> SHX abs,Y, \<open>A0\<close> LDY #,
  \<open>F6\<close> INC zp,X); every
  other byte decodes like \<open>EA\<close>, the two-cycle NOP. Only concrete runs use the sample; the
  general theorems hold for every table.
\<close>

definition sample_T1AddressModeFunctions :: "u8 \<Rightarrow> AddressModeCycleFunction" where
  "sample_T1AddressModeFunctions b =
     (if b = 0x02 then Stage sb_jam T1
      else if b = 0x28 then Stage pl_5_2 T1
      else if b = 0x40 then Stage rti_5_5 T1
      else if b = 0x48 then Stage ph_5_1 T1
      else if b = 0x68 then Stage pl_5_2 T1
      else if b = 0x69 then Stage imm_2_1 T1
      else if b = 0x6C then Stage abs5_6_2 T1
      else if b = 0x9E then Stage absy_3_4 T1
      else if b = 0xA0 then Stage imm_2_1 T1
      else if b = 0xA2 then Stage imm_2_1 T1
      else if b = 0xA9 then Stage imm_2_1 T1
      else if b = 0xD0 then Stage rel_5_8 T1
      else if b = 0xF6 then Stage zpx_4_3 T1
      else Stage sb_1 T1)"

definition sample_opcodeFunctions :: "u8 \<Rightarrow> OpcodeCycleFunction" where
  "sample_opcodeFunctions b =
     (if b = 0x02 then OP_JAM
      else if b = 0x0A then OP_ASL
      else if b = 0x28 then OP_PLP
      else if b = 0x40 then OP_RTI
      else if b = 0x48 then OP_PHA
      else if b = 0x68 then OP_PLA
      else if b = 0x69 then OP_ADC
      else if b = 0x6C then OP_JMP
      else if b = 0x9E then OP_SHX
      else if b = 0xA0 then OP_LDY
      else if b = 0xA2 then OP_LDX
      else if b = 0xA9 then OP_LDA
      else if b = 0xAA then OP_TAX
      else if b = 0xCA then OP_DEX
      else if b = 0xD0 then OP_BNE
      else if b = 0xE8 then OP_INX
      else if b = 0xF6 then OP_INC
      else OP_NOP)"

text \<open>
  Modelled from the spec: section 4.4 gives ADC as \<open>r = a + value + C\<close>, C set if
  \<open>r > 0xFF\<close>, V from \<open>~(a^value) & (a^r) & 0x80\<close>, N and Z from \<open>r & 0xFF\<close>; SBC as ADC
  of the ones-complemented value; ARR as \<open>A = ((A & M) >> 1) | (C << 7)\<close>, V = bit 6 XOR
  bit 5 of the result, C = bit 6, N and Z from the result. The sample has the binary
  arithmetic only: the spec leaves the decimal adjustment open.
\<close>

definition set_flag :: "u8 \<Rightarrow> bool \<Rightarrow> u8 \<Rightarrow> u8" where
  "set_flag flag on st = (if on then st OR flag else st AND NOT flag)"

definition sample_ADC :: "u8 \<times> u8 \<times> u16 \<Rightarrow> u8 \<times> u8" where
  "sample_ADC = (\<lambda>(ac, st, v).
     let r = ucast ac + v + ucast (st AND FLAG_CARRY);
         st = set_flag FLAG_CARRY (r > 0xFF) st;
         st = set_flag FLAG_OVERFLOW (NOT (ucast ac XOR v) AND (ucast ac XOR r) AND 0x80 \<noteq> 0) st;
         st = set_flag FLAG_ZERO (r AND 0xFF = 0) st;
         st = set_flag FLAG_SIGN (r AND 0x80 \<noteq> 0) st
     in (ucast r, st))"

definition sample_SBC :: "u8 \<times> u8 \<times> u16 \<Rightarrow> u8 \<times> u8" where
  "sample_SBC = (\<lambda>(ac, st, v). sample_ADC (ac, st, (v XOR 0xFF) AND 0xFF))"

definition sample_ARR :: "u8 \<times> u8 \<times> u16 \<Rightarrow> u8 \<times> u8" where
  "sample_ARR = (\<lambda>(ac, st, v).
     let r = drop_bit 1 (ac AND ucast v) OR push_bit 7 (st AND FLAG_CARRY);
         st = set_flag FLAG_OVERFLOW (bit r 6 \<noteq> bit r 5) st;
         st = set_flag FLAG_CARRY (bit r 6) st;
         st = set_flag FLAG_ZERO (r = 0) st;
         st = set_flag FLAG_SIGN (bit r 7) st
     in (r, st))"

definition sample_cpp :: M6502_cpp where
  "sample_cpp = \<lparr>T1AddressModeFunctions = sample_T1AddressModeFunctions,
                  opcodeFunctions = sample_opcodeFunctions,
                  ADC_fn = sample_ADC, SBC_fn = sample_SBC, ARR_fn = sample_ARR\<rparr>"

subsection \<open>Which opcode function goes with which address mode\<close>

text \<open>
  What an opcode function does on the bus, read off its body: nothing; one call of
  \<^verbatim>\<open>WriteValue\<close>; one \<^verbatim>\<open>Push\<close> or \<^verbatim>\<open>Pull\<close>; the one read of \<^verbatim>\<open>BRANCH_CONDITION\<close>.
\<close>

datatype opcode_kind = Registers | WritesValue | StackAccess | Branch

definition kind_of :: "OpcodeCycleFunction \<Rightarrow> opcode_kind" where
  "kind_of f =
     (case f of
        OP_ASL \<Rightarrow> WritesValue | OP_DEC \<Rightarrow> WritesValue | OP_INC \<Rightarrow> WritesValue
      | OP_LSR \<Rightarrow> WritesValue | OP_ROL \<Rightarrow> WritesValue | OP_ROR \<Rightarrow> WritesValue
      | OP_STA \<Rightarrow> WritesValue | OP_STX \<Rightarrow> WritesValue | OP_STY \<Rightarrow> WritesValue
      | OP_SAX \<Rightarrow> WritesValue | OP_SHA \<Rightarrow> WritesValue | OP_SHY \<Rightarrow> WritesValue
      | OP_DCP \<Rightarrow> WritesValue | OP_ISB \<Rightarrow> WritesValue | OP_SLO \<Rightarrow> WritesValue
      | OP_RLA \<Rightarrow> WritesValue | OP_SRE \<Rightarrow> WritesValue | OP_RRA \<Rightarrow> WritesValue
      | OP_SHS \<Rightarrow> WritesValue | OP_SHX \<Rightarrow> WritesValue
      | OP_PHA \<Rightarrow> StackAccess | OP_PHP \<Rightarrow> StackAccess
      | OP_PLA \<Rightarrow> StackAccess | OP_PLP \<Rightarrow> StackAccess
      | OP_BCC \<Rightarrow> Branch | OP_BCS \<Rightarrow> Branch | OP_BEQ \<Rightarrow> Branch | OP_BMI \<Rightarrow> Branch
      | OP_BNE \<Rightarrow> Branch | OP_BPL \<Rightarrow> Branch | OP_BVC \<Rightarrow> Branch | OP_BVS \<Rightarrow> Branch
      | _ \<Rightarrow> Registers)"








subsection \<open>States a host can bring a constructed CPU into\<close>

inductive reachable :: "M6502_cpp \<Rightarrow> 'h M6502 \<Rightarrow> bool" for X :: M6502_cpp where
  constructed: "M6502_ctor uninit (Some rd) (Some wr) = Some s \<Longrightarrow> reachable X s"
| stepped: "reachable X s \<Longrightarrow> Step X s = Some s' \<Longrightarrow> reachable X s'"
| reset: "reachable X s \<Longrightarrow> reachable X (Reset s)"
| irq_asserted: "reachable X s \<Longrightarrow> reachable X (IRQ_Assert s)"
| irq_released: "reachable X s \<Longrightarrow> reachable X (IRQ_Release s)"
| so_pulsed: "reachable X s \<Longrightarrow> reachable X (SO s)"



subsection \<open>Concrete machines\<close>

text \<open>
  A CPU constructed on a RAM host that holds the given bytes; \<open>vector_0200\<close> is the reset
  vector \<open>$0200\<close> at \<open>$FFFC/$FFFD\<close>.
\<close>

definition power_on :: "(u16 \<times> u8) list \<Rightarrow> (u16 \<Rightarrow> u8) M6502" where
  "power_on bytes = SetBusFunctions (Some ram_read) (Some ram_write) (raw_storage (load bytes))"

definition vector_0200 :: "(u16 \<times> u8) list" where
  "vector_0200 = [(0xFFFC, 0x00), (0xFFFD, 0x02)]"

text \<open>A CPU whose stack pointer holds \<open>$80\<close> when \<^verbatim>\<open>Reset\<close> is called.\<close>

definition reset_demo :: "(u16 \<Rightarrow> u8) M6502" where
  "reset_demo = Reset ((power_on vector_0200)\<lparr>sp := 0x80\<rparr>)"

text \<open>\<open>RTI\<close> at \<open>$0200\<close>; the stack page is all zero.\<close>

definition rti_demo :: "(u16 \<Rightarrow> u8) M6502" where
  "rti_demo = power_on (vector_0200 @ [(0x0200, 0x40)])"



text \<open>\<open>PLP\<close> at \<open>$0200\<close>; the byte it will pull, at \<open>$01FE\<close>, is \<open>$10\<close>.\<close>

definition plp_demo :: "(u16 \<Rightarrow> u8) M6502" where
  "plp_demo = power_on (vector_0200 @ [(0x0200, 0x28), (0x01FE, 0x10)])"

text \<open>\<open>LDX #$FF; LDY #$01; SHX $12FF,Y\<close> at \<open>$0200\<close>.\<close>

definition shx_demo :: "(u16 \<Rightarrow> u8) M6502" where
  "shx_demo = power_on (vector_0200 @
     [(0x0200, 0xA2), (0x0201, 0xFF), (0x0202, 0xA0), (0x0203, 0x01),
      (0x0204, 0x9E), (0x0205, 0xFF), (0x0206, 0x12)])"

text \<open>\<open>LDX #$01; INC $FF,X\<close> at \<open>$0200\<close>, with \<open>$41\<close> at \<open>$0000\<close>.\<close>

definition inc_demo :: "(u16 \<Rightarrow> u8) M6502" where
  "inc_demo = power_on (vector_0200 @
     [(0x0200, 0xA2), (0x0201, 0x01), (0x0202, 0xF6), (0x0203, 0xFF), (0x0000, 0x41)])"

text \<open>\<open>LDA #$81; ASL A\<close> at \<open>$0200\<close>.\<close>

definition asl_demo :: "(u16 \<Rightarrow> u8) M6502" where
  "asl_demo = power_on (vector_0200 @ [(0x0200, 0xA9), (0x0201, 0x81), (0x0202, 0x0A)])"

section \<open>Proofs\<close>

subsection \<open>Evaluation rules\<close>

lemma call_stage_simps:
  "call_stage X PtrInstructionFetch s = InstructionFetch X s"
  "call_stage X PtrInstructionFetchIRQ s = InstructionFetchIRQ X s"
  "call_stage X (Stage sb_1 T1) s = sb_1_T1 X s"
  "call_stage X (Stage sb_jam T1) s = sb_jam_T1 X s"
  "call_stage X (Stage imm_2_1 T1) s = imm_2_1_T1 X s"
  "call_stage X (Stage rel_5_8 T1) s = rel_5_8_T1 X s"
  "call_stage X (Stage rel_5_8 T2) s = rel_5_8_T2 s"
  "call_stage X (Stage rel_5_8 T3) s = rel_5_8_T3 s"
  "call_stage X (Stage zp_2_1 T1) s = zp_2_1_T1 s"
  "call_stage X (Stage zp_2_1 T2) s = zp_2_1_T2 X s"
  "call_stage X (Stage zp_3_1 T1) s = zp_3_1_T1 s"
  "call_stage X (Stage zp_3_1 T2) s = zp_3_1_T2 X s"
  "call_stage X (Stage abs_2_3 T1) s = abs_2_3_T1 s"
  "call_stage X (Stage abs_2_3 T2) s = abs_2_3_T2 s"
  "call_stage X (Stage abs_2_3 T3) s = abs_2_3_T3 X s"
  "call_stage X (Stage abs_3_2 T1) s = abs_3_2_T1 s"
  "call_stage X (Stage abs_3_2 T2) s = abs_3_2_T2 s"
  "call_stage X (Stage abs_3_2 T3) s = abs_3_2_T3 X s"
  "call_stage X (Stage idx_2_4 T1) s = idx_2_4_T1 s"
  "call_stage X (Stage idx_2_4 T2) s = idx_2_4_T2 s"
  "call_stage X (Stage idx_2_4 T3) s = idx_2_4_T3 s"
  "call_stage X (Stage idx_2_4 T4) s = idx_2_4_T4 s"
  "call_stage X (Stage idx_2_4 T5) s = idx_2_4_T5 X s"
  "call_stage X (Stage idx_3_3 T1) s = idx_3_3_T1 s"
  "call_stage X (Stage idx_3_3 T2) s = idx_3_3_T2 s"
  "call_stage X (Stage idx_3_3 T3) s = idx_3_3_T3 s"
  "call_stage X (Stage idx_3_3 T4) s = idx_3_3_T4 s"
  "call_stage X (Stage idx_3_3 T5) s = idx_3_3_T5 X s"
  "call_stage X (Stage idx_Undoc T1) s = idx_Undoc_T1 s"
  "call_stage X (Stage idx_Undoc T2) s = idx_Undoc_T2 s"
  "call_stage X (Stage idx_Undoc T3) s = idx_Undoc_T3 s"
  "call_stage X (Stage idx_Undoc T4) s = idx_Undoc_T4 s"
  "call_stage X (Stage idx_Undoc T5) s = idx_Undoc_T5 s"
  "call_stage X (Stage idx_Undoc T6) s = idx_Undoc_T6 s"
  "call_stage X (Stage idx_Undoc T7) s = idx_Undoc_T7 X s"
  "call_stage X (Stage absx_2_5 T1) s = absx_2_5_T1 s"
  "call_stage X (Stage absx_2_5 T2) s = absx_2_5_T2 s"
  "call_stage X (Stage absx_2_5 T3) s = absx_2_5_T3 X s"
  "call_stage X (Stage absx_2_5 T4) s = absx_2_5_T4 X s"
  "call_stage X (Stage absx_3_4 T1) s = absx_3_4_T1 s"
  "call_stage X (Stage absx_3_4 T2) s = absx_3_4_T2 s"
  "call_stage X (Stage absx_3_4 T3) s = absx_3_4_T3 s"
  "call_stage X (Stage absx_3_4 T4) s = absx_3_4_T4 X s"
  "call_stage X (Stage absy_2_5 T1) s = absy_2_5_T1 s"
  "call_stage X (Stage absy_2_5 T2) s = absy_2_5_T2 s"
  "call_stage X (Stage absy_2_5 T3) s = absy_2_5_T3 X s"
  "call_stage X (Stage absy_2_5 T4) s = absy_2_5_T4 X s"
  "call_stage X (Stage absy_3_4 T1) s = absy_3_4_T1 s"
  "call_stage X (Stage absy_3_4 T2) s = absy_3_4_T2 s"
  "call_stage X (Stage absy_3_4 T3) s = absy_3_4_T3 s"
  "call_stage X (Stage absy_3_4 T4) s = absy_3_4_T4 X s"
  "call_stage X (Stage zpx_2_6 T1) s = zpx_2_6_T1 s"
  "call_stage X (Stage zpx_2_6 T2) s = zpx_2_6_T2 s"
  "call_stage X (Stage zpx_2_6 T3) s = zpx_2_6_T3 X s"
  "call_stage X (Stage zpx_3_5 T1) s = zpx_3_5_T1 s"
  "call_stage X (Stage zpx_3_5 T2) s = zpx_3_5_T2 s"
  "call_stage X (Stage zpx_3_5 T3) s = zpx_3_5_T3 X s"
  "call_stage X (Stage zpy_2_6 T1) s = zpy_2_6_T1 s"
  "call_stage X (Stage zpy_2_6 T2) s = zpy_2_6_T2 s"
  "call_stage X (Stage zpy_2_6 T3) s = zpy_2_6_T3 X s"
  "call_stage X (Stage zpy_3_5 T1) s = zpy_3_5_T1 s"
  "call_stage X (Stage zpy_3_5 T2) s = zpy_3_5_T2 s"
  "call_stage X (Stage zpy_3_5 T3) s = zpy_3_5_T3 X s"
  "call_stage X (Stage idy_2_7 T1) s = idy_2_7_T1 s"
  "call_stage X (Stage idy_2_7 T2) s = idy_2_7_T2 s"
  "call_stage X (Stage idy_2_7 T3) s = idy_2_7_T3 s"
  "call_stage X (Stage idy_2_7 T4) s = idy_2_7_T4 X s"
  "call_stage X (Stage idy_2_7 T5) s = idy_2_7_T5 X s"
  "call_stage X (Stage idy_3_6 T1) s = idy_3_6_T1 s"
  "call_stage X (Stage idy_3_6 T2) s = idy_3_6_T2 s"
  "call_stage X (Stage idy_3_6 T3) s = idy_3_6_T3 s"
  "call_stage X (Stage idy_3_6 T4) s = idy_3_6_T4 s"
  "call_stage X (Stage idy_3_6 T5) s = idy_3_6_T5 X s"
  "call_stage X (Stage idy_Undoc T1) s = idy_Undoc_T1 s"
  "call_stage X (Stage idy_Undoc T2) s = idy_Undoc_T2 s"
  "call_stage X (Stage idy_Undoc T3) s = idy_Undoc_T3 s"
  "call_stage X (Stage idy_Undoc T4) s = idy_Undoc_T4 s"
  "call_stage X (Stage idy_Undoc T5) s = idy_Undoc_T5 s"
  "call_stage X (Stage idy_Undoc T6) s = idy_Undoc_T6 s"
  "call_stage X (Stage idy_Undoc T7) s = idy_Undoc_T7 X s"
  "call_stage X (Stage zp_4_1 T1) s = zp_4_1_T1 s"
  "call_stage X (Stage zp_4_1 T2) s = zp_4_1_T2 s"
  "call_stage X (Stage zp_4_1 T3) s = zp_4_1_T3 s"
  "call_stage X (Stage zp_4_1 T4) s = zp_4_1_T4 X s"
  "call_stage X (Stage abs_4_2 T1) s = abs_4_2_T1 s"
  "call_stage X (Stage abs_4_2 T2) s = abs_4_2_T2 s"
  "call_stage X (Stage abs_4_2 T3) s = abs_4_2_T3 s"
  "call_stage X (Stage abs_4_2 T4) s = abs_4_2_T4 s"
  "call_stage X (Stage abs_4_2 T5) s = abs_4_2_T5 X s"
  "call_stage X (Stage zpx_4_3 T1) s = zpx_4_3_T1 s"
  "call_stage X (Stage zpx_4_3 T2) s = zpx_4_3_T2 s"
  "call_stage X (Stage zpx_4_3 T3) s = zpx_4_3_T3 s"
  "call_stage X (Stage zpx_4_3 T4) s = zpx_4_3_T4 s"
  "call_stage X (Stage zpx_4_3 T5) s = zpx_4_3_T5 X s"
  "call_stage X (Stage absx_4_4 T1) s = absx_4_4_T1 s"
  "call_stage X (Stage absx_4_4 T2) s = absx_4_4_T2 s"
  "call_stage X (Stage absx_4_4 T3) s = absx_4_4_T3 s"
  "call_stage X (Stage absx_4_4 T4) s = absx_4_4_T4 s"
  "call_stage X (Stage absx_4_4 T5) s = absx_4_4_T5 s"
  "call_stage X (Stage absx_4_4 T6) s = absx_4_4_T6 X s"
  "call_stage X (Stage absy_4_4 T1) s = absy_4_4_T1 s"
  "call_stage X (Stage absy_4_4 T2) s = absy_4_4_T2 s"
  "call_stage X (Stage absy_4_4 T3) s = absy_4_4_T3 s"
  "call_stage X (Stage absy_4_4 T4) s = absy_4_4_T4 s"
  "call_stage X (Stage absy_4_4 T5) s = absy_4_4_T5 s"
  "call_stage X (Stage absy_4_4 T6) s = absy_4_4_T6 X s"
  "call_stage X (Stage ph_5_1 T1) s = ph_5_1_T1 s"
  "call_stage X (Stage ph_5_1 T2) s = ph_5_1_T2 X s"
  "call_stage X (Stage pl_5_2 T1) s = pl_5_2_T1 s"
  "call_stage X (Stage pl_5_2 T2) s = pl_5_2_T2 s"
  "call_stage X (Stage pl_5_2 T3) s = pl_5_2_T3 X s"
  "call_stage X (Stage jsr_5_3 T1) s = jsr_5_3_T1 s"
  "call_stage X (Stage jsr_5_3 T2) s = jsr_5_3_T2 s"
  "call_stage X (Stage jsr_5_3 T3) s = jsr_5_3_T3 s"
  "call_stage X (Stage jsr_5_3 T4) s = jsr_5_3_T4 s"
  "call_stage X (Stage jsr_5_3 T5) s = jsr_5_3_T5 X s"
  "call_stage X (Stage rti_5_5 T1) s = rti_5_5_T1 s"
  "call_stage X (Stage rti_5_5 T2) s = rti_5_5_T2 s"
  "call_stage X (Stage rti_5_5 T3) s = rti_5_5_T3 s"
  "call_stage X (Stage rti_5_5 T4) s = rti_5_5_T4 s"
  "call_stage X (Stage rti_5_5 T5) s = rti_5_5_T5 X s"
  "call_stage X (Stage abs5_6_1 T1) s = abs5_6_1_T1 s"
  "call_stage X (Stage abs5_6_1 T2) s = abs5_6_1_T2 X s"
  "call_stage X (Stage abs5_6_2 T1) s = abs5_6_2_T1 s"
  "call_stage X (Stage abs5_6_2 T2) s = abs5_6_2_T2 s"
  "call_stage X (Stage abs5_6_2 T3) s = abs5_6_2_T3 s"
  "call_stage X (Stage abs5_6_2 T4) s = abs5_6_2_T4 X s"
  "call_stage X (Stage rts_5_7 T1) s = rts_5_7_T1 s"
  "call_stage X (Stage rts_5_7 T2) s = rts_5_7_T2 s"
  "call_stage X (Stage rts_5_7 T3) s = rts_5_7_T3 s"
  "call_stage X (Stage rts_5_7 T4) s = rts_5_7_T4 s"
  "call_stage X (Stage rts_5_7 T5) s = rts_5_7_T5 X s"
  "call_stage X (Stage brk_5_4 T1) s = brk_5_4_T1 s"
  "call_stage X (Stage brk_5_4 T2) s = brk_5_4_T2 s"
  "call_stage X (Stage brk_5_4 T3) s = brk_5_4_T3 s"
  "call_stage X (Stage brk_5_4 T4) s = brk_5_4_T4 s"
  "call_stage X (Stage brk_5_4 T5) s = brk_5_4_T5 s"
  "call_stage X (Stage brk_5_4 T6) s = brk_5_4_T6 X s"
  "call_stage X (Stage Reset_seq T0) s = Reset_T0 s"
  "call_stage X (Stage Reset_seq T1) s = Reset_T1 s"
  "call_stage X (Stage Reset_seq T2) s = Reset_T2 s"
  "call_stage X (Stage Reset_seq T3) s = Reset_T3 s"
  "call_stage X (Stage Reset_seq T4) s = Reset_T4 s"
  "call_stage X (Stage Reset_seq T5) s = Reset_T5 s"
  "call_stage X (Stage Reset_seq T6) s = Reset_T6 s"
  "call_stage X (Stage IRQ_seq T1) s = IRQ_T1 s"
  "call_stage X (Stage IRQ_seq T2) s = IRQ_T2 s"
  "call_stage X (Stage IRQ_seq T3) s = IRQ_T3 s"
  "call_stage X (Stage IRQ_seq T4) s = IRQ_T4 s"
  "call_stage X (Stage IRQ_seq T5) s = IRQ_T5 s"
  "call_stage X (Stage IRQ_seq T6) s = IRQ_T6 s"
  by (simp_all add: call_stage_def)

lemma Steps_numeral:
  "Steps X (numeral k) s =
     (case Step X s of None \<Rightarrow> None | Some s' \<Rightarrow> Steps X (pred_numeral k) s')"
  by (simp add: numeral_eq_Suc)

lemma u8_neg_ucast:
  "(ucast (- 1 :: u8) :: u16) = 0xFF"
  "(ucast (- 2 :: u8) :: u16) = 0xFE"
  "(ucast (- 3 :: u8) :: u16) = 0xFD"
  by (simp_all add: unsigned_minus_1_eq_mask mask_eq_exp_minus_1 ucast_eq)

lemma test_forms:
  "SetC_test v s = s\<lparr>status := (if v \<noteq> 0 then status s OR FLAG_CARRY else status s AND NOT FLAG_CARRY)\<rparr>"
  "SetZ_test v s = s\<lparr>status := (if v \<noteq> 0 then status s OR FLAG_ZERO else status s AND NOT FLAG_ZERO)\<rparr>"
  "SetV_test v s = s\<lparr>status := (if v \<noteq> 0 then status s OR FLAG_OVERFLOW else status s AND NOT FLAG_OVERFLOW)\<rparr>"
  "SetN_test v s = s\<lparr>status := (if v \<noteq> 0 then status s OR FLAG_SIGN else status s AND NOT FLAG_SIGN)\<rparr>"
  by (simp_all add: SetC_test_def SetZ_test_def SetV_test_def SetN_test_def
      SetC_def ClearC_def SetZ_def ClearZ_def SetV_def ClearV_def SetN_def ClearN_def)

lemmas flag_forms = test_forms EstablishZ_def EstablishN_def EstablishC_def EstablishNZ_def
  ClearB_def SetB_def ClearC_def SetC_def ClearZ_def SetZ_def ClearI_def SetI_def
  ClearD_def SetD_def ClearV_def SetV_def ClearN_def SetN_def

lemmas register_opcode_defs = ADC_def SBC_def ARR_def ANC_def AND_op_def BIT_def BRK_def CLC_def CLD_def
  CLI_def CLV_def CMP_def CPX_def CPY_def DEX_def DEY_def EOR_def INX_def INY_def JAM_def JMP_def
  JSR_def LDA_def LDX_def LDY_def NOP_def ORA_def RTI_def RTS_def SEC_def SED_def SEI_def TAX_def
  TAY_def TSX_def TXA_def TXS_def TYA_def ASR_def LXA_def LAX_def LAS_def SBX_def XAA_def

lemmas bus_opcode_defs = ASL_def DEC_def INC_def LSR_def ROL_def ROR_def STA_def STX_def STY_def
  SAX_def SHA_def SHY_def SHX_def SHS_def DCP_def ISB_def SLO_def RLA_def SRE_def RRA_def
  PHA_def PHP_def PLA_def PLP_def BCC_def BCS_def BEQ_def BMI_def BNE_def BPL_def BVC_def BVS_def

lemmas Reset_defs = Reset_T0_def Reset_T1_def Reset_T2_def Reset_T3_def Reset_T4_def
  Reset_T5_def Reset_T6_def

subsection \<open>Bus accesses of the opcode functions\<close>


lemma opc_writes_acc:
  assumes "kind_of f = WritesValue" and "addressModeCycleFn s = Stage sb_1 T1"
  shows "\<exists>s'. call_opcode X f s = Some s' \<and> trace s' = trace s
           \<and> dataBusReadFn s' = dataBusReadFn s \<and> dataBusWriteFn s' = dataBusWriteFn s"
  using assms
  by (cases f) (simp_all add: kind_of_def call_opcode_def bus_opcode_defs register_opcode_defs
       WriteValue_def flag_forms Let_def)

lemma opc_writes_bus:
  assumes "kind_of f = WritesValue" and "addressModeCycleFn s \<noteq> Stage sb_1 T1"
    and "dataBusWriteFn s = Some wr"
  shows "\<exists>s' b. call_opcode X f s = Some s' \<and> trace s' = trace s @ [BusWrite (ea s) b]
           \<and> dataBusReadFn s' = dataBusReadFn s \<and> dataBusWriteFn s' = dataBusWriteFn s"
  using assms
  by (cases f) (simp_all add: kind_of_def call_opcode_def bus_opcode_defs register_opcode_defs
       WriteValue_def BUS_WRITE_def flag_forms Let_def)












subsection \<open>One bus access in every T-stage\<close>




























































































































































subsection \<open>Concrete runs\<close>


lemma power_on_reachable: "reachable X (power_on bytes)"
  by (rule reachable.constructed [of "raw_storage (load bytes)" ram_read ram_write])
     (simp add: M6502_ctor_def power_on_def)

lemma Steps_reachable:
  "reachable X s \<Longrightarrow> Steps X n s = Some s' \<Longrightarrow> reachable X s'"
proof (induction n arbitrary: s)
  case 0
  then show ?case by simp
next
  case (Suc n)
  then show ?case
    by (auto split: option.splits intro: reachable.stepped)
qed

lemmas power_on_defs = power_on_def SetBusFunctions_def Reset_def raw_storage_def vector_0200_def
lemmas run_simps = Steps_numeral Step_def call_stage_simps BUS_READ_def BUS_WRITE_def Push_def Pull_def
  ram_read_def ram_write_def u8_neg_ucast

lemmas fetch_simps = InstructionFetch_def InstructionFetchIRQ_def FetchOpcode_def ExecuteOpcode_def
  call_opcode_def sample_cpp_def sample_T1AddressModeFunctions_def sample_opcodeFunctions_def

subsection \<open>Word facts\<close>

lemma plp_bits: "(b OR FLAG_CONSTANT) AND FLAG_BREAK = b AND FLAG_BREAK" for b :: u8
  by (simp add: word_ao_dist)

lemma zp_lt: "(ucast (v :: u8) :: u16) < 0x100"
proof -
  have "unat v < 2 ^ 8"
    using unsigned_less [of v, where ?'a = nat] by simp
  then have lt: "unat v < 256" by simp
  then have "unat v < 2 ^ 16" by simp
  then have "take_bit 16 (unat v) = unat v"
    by (rule take_bit_nat_eq_self)
  then have "unat (ucast v :: u16) = unat v"
    by (simp add: unsigned_ucast_eq)
  with lt show ?thesis
    by (simp add: word_less_nat_alt)
qed

lemma zp_wrap: "((ucast (b :: u8) :: u16) + ucast (i :: u8)) AND 0xFF = ucast (b + i)"
proof -
  have m: "(0xFF :: u16) = mask 8"
    by (simp add: mask_eq_exp_minus_1)
  have up: "uint (ucast w :: u16) = uint w" for w :: u8
    by (rule uint_up_ucast) (simp add: is_up)
  have "uint (ucast b + ucast i :: u16) = (uint (ucast b :: u16) + uint (ucast i :: u16)) mod 2 ^ 16"
    by (simp add: uint_word_ariths)
  then have s: "uint (ucast b + ucast i :: u16) = (uint b + uint i) mod 2 ^ 16"
    by (simp only: up)
  have "(uint b + uint i) mod 2 ^ 16 mod 2 ^ 8 = (uint b + uint i) mod (2 ^ 8 :: int)"
    by (rule mod_mod_cancel) simp
  then have l: "((ucast b :: u16) + ucast i) AND mask 8 = word_of_int ((uint b + uint i) mod 2 ^ 8)"
    by (simp only: and_mask_mod_2p s)
  have "uint (b + i) = (uint b + uint i) mod 2 ^ 8"
    by (simp add: uint_word_ariths)
  then have r: "(ucast (b + i) :: u16) = word_of_int ((uint b + uint i) mod 2 ^ 8)"
    by (simp only: ucast_eq)
  show ?thesis
    by (simp only: m l r)
qed


lemma ucast_u16_u8_succ: "(ucast (w + 1 :: u16) :: u8) = ucast w + 1"
proof -
  have down: "is_down (ucast :: u16 \<Rightarrow> u8)"
    by (simp add: is_down)
  have a: "(ucast (word_of_int (uint w + 1) :: u16) :: u8) = word_of_int (uint w + 1)"
    by (rule ucast_down_wi [OF down])
  have b: "(ucast (word_of_int (uint w) :: u16) :: u8) = word_of_int (uint w)"
    by (rule ucast_down_wi [OF down])
  have c: "(word_of_int (uint w + 1) :: u16) = w + 1"
    by simp
  have d: "(word_of_int (uint w) :: u16) = w"
    by simp
  have e: "(word_of_int (uint w + 1) :: u8) = word_of_int (uint w) + 1"
    by simp
  have "(ucast (w + 1) :: u8) = word_of_int (uint w + 1)"
    using a by (simp only: c)
  also have "\<dots> = word_of_int (uint w) + 1"
    by (rule e)
  also have "word_of_int (uint w) = (ucast w :: u8)"
    using b by (simp only: d)
  finally show ?thesis .
qed

lemma store_byte_u8:
  "(ucast ((drop_bit 8 e + 1) AND ucast v :: u16) :: u8) = v AND (ucast (drop_bit 8 e) + 1)"
  for e :: u16 and v :: u8
proof -
  have up: "(ucast (ucast v :: u16) :: u8) = v"
    by (simp add: ucast_up_ucast_id is_up)
  have "(ucast ((drop_bit 8 e + 1) AND ucast v :: u16) :: u8)
      = ucast (drop_bit 8 e + 1) AND ucast (ucast v :: u16)"
    by (rule unsigned_and_eq)
  also have "\<dots> = (ucast (drop_bit 8 e) + 1) AND v"
    by (simp only: ucast_u16_u8_succ up)
  finally show ?thesis
    by (simp only: and.commute)
qed

lemma store_byte_u8_2:
  "(ucast (ucast v AND ucast w AND (drop_bit 8 e + 1) :: u16) :: u8)
     = v AND w AND (ucast (drop_bit 8 e) + 1)"
  for e :: u16 and v w :: u8
proof -
  have up: "(ucast (ucast u :: u16) :: u8) = u" for u :: u8
    by (simp add: ucast_up_ucast_id is_up)
  have "(ucast (ucast v AND ucast w AND (drop_bit 8 e + 1) :: u16) :: u8)
      = ucast (ucast v :: u16) AND ucast (ucast w :: u16) AND ucast (drop_bit 8 e + 1)"
    by (simp only: unsigned_and_eq)
  also have "\<dots> = v AND w AND (ucast (drop_bit 8 e) + 1)"
    by (simp only: ucast_u16_u8_succ up)
  finally show ?thesis .
qed

subsection \<open>The effective address across an opcode function\<close>

lemma opc_registers_ea:
  assumes "kind_of f = Registers"
  shows "\<exists>s'. call_opcode X f s = Some s' \<and> trace s' = trace s \<and> ea s' = ea s"
  using assms
  by (cases f) (simp_all add: kind_of_def call_opcode_def register_opcode_defs flag_forms Let_def)

lemma opc_writes_ea:
  assumes "kind_of f = WritesValue" and "addressModeCycleFn s \<noteq> Stage sb_1 T1"
    and "dataBusWriteFn s = Some wr"
  shows "\<exists>s' v. call_opcode X f s = Some s' \<and> trace s' = trace s @ [BusWrite (ea s) v]
           \<and> ea s' = ea s"
  using assms
  by (cases f) (simp_all add: kind_of_def call_opcode_def bus_opcode_defs register_opcode_defs
       WriteValue_def BUS_WRITE_def flag_forms Let_def)

lemma exec_registers_ea:
  assumes "kind_of (opcodeCycleFn s) = Registers"
  shows "\<exists>s'. ExecuteOpcode X s = Some s' \<and> trace s' = trace s \<and> ea s' = ea s"
  using opc_registers_ea [OF assms, of X s]
  by (auto simp: ExecuteOpcode_def)

lemma exec_writes_ea:
  assumes "kind_of (opcodeCycleFn s) = WritesValue" and "addressModeCycleFn s \<noteq> Stage sb_1 T1"
    and "dataBusWriteFn s = Some wr"
  shows "\<exists>s' v. ExecuteOpcode X s = Some s' \<and> trace s' = trace s @ [BusWrite (ea s) v]
           \<and> ea s' = ea s"
  using opc_writes_ea [OF assms, of X]
  by (auto simp: ExecuteOpcode_def)

lemma Steps_add:
  "Steps X (m + n) s = (case Steps X m s of None \<Rightarrow> None | Some s' \<Rightarrow> Steps X n s')"
  by (induction m arbitrary: s) (auto split: option.splits)

lemma Steps_then:
  "Steps X m s = Some t \<Longrightarrow> Step X t = Some u \<Longrightarrow> Steps X (m + 1) s = Some u"
  using Steps_add [of X m 1 s] by simp

subsection \<open>Zero page indexed chains\<close>

lemma zp_indexed_T1_T2:
  assumes "dataBusReadFn s = Some rd" and "addressModeCycleFn s = Stage m T1"
    and "m = zpx_2_6 \<or> m = zpy_2_6 \<or> m = zpx_3_5 \<or> m = zpy_3_5 \<or> m = zpx_4_3"
  shows "Steps X 2 s =
     Some (s\<lparr>host := snd (rd (ucast (fst (rd (pc s) (host s)))) (snd (rd (pc s) (host s)))),
             trace := trace s @ [BusRead (pc s), BusRead (ucast (fst (rd (pc s) (host s))))],
             pc := pc s + 1,
             ea := ucast (fst (rd (pc s) (host s))),
             addressModeCycleFn := Stage m T3\<rparr>)"
  using assms
  by (auto simp: Steps_numeral Step_def call_stage_simps BUS_READ_def
      zpx_2_6_T1_def zpx_2_6_T2_def zpy_2_6_T1_def zpy_2_6_T2_def zpx_3_5_T1_def zpx_3_5_T2_def
      zpy_3_5_T1_def zpy_3_5_T2_def zpx_4_3_T1_def zpx_4_3_T2_def)

lemma zp_indexed_T3:
  assumes "dataBusReadFn s = Some rd" and "dataBusWriteFn s = Some wr"
    and "addressModeCycleFn s = Stage m T3"
    and "(m = zpx_2_6 \<or> m = zpy_2_6) \<and> kind_of (opcodeCycleFn s) = Registers
       \<or> (m = zpx_3_5 \<or> m = zpy_3_5) \<and> kind_of (opcodeCycleFn s) = WritesValue
       \<or> m = zpx_4_3"
  shows "\<exists>s' e. Step X s = Some s'
     \<and> ea s' = (ea s + ucast (if m = zpy_2_6 \<or> m = zpy_3_5 then y s else x s)) AND 0xFF
     \<and> trace s' = trace s @ [e]
     \<and> (e = BusRead (ea s') \<or> (\<exists>v. e = BusWrite (ea s') v))"
proof -
  consider (rx) "m = zpx_2_6" "kind_of (opcodeCycleFn s) = Registers"
    | (ry) "m = zpy_2_6" "kind_of (opcodeCycleFn s) = Registers"
    | (wx) "m = zpx_3_5" "kind_of (opcodeCycleFn s) = WritesValue"
    | (wy) "m = zpy_3_5" "kind_of (opcodeCycleFn s) = WritesValue"
    | (rmw) "m = zpx_4_3"
    using assms(4) by blast
  then show ?thesis
  proof cases
    case rx
    let ?ea = "(ea s + ucast (x s)) AND 0xFF"
    let ?t = "s\<lparr>ea := ?ea, host := snd (rd ?ea (host s)), trace := trace s @ [BusRead ?ea],
                value16 := ucast (fst (rd ?ea (host s)))\<rparr>"
    from rx(2) have "kind_of (opcodeCycleFn ?t) = Registers" by simp
    from exec_registers_ea [OF this, of X] assms(1,3) rx(1) show ?thesis
      by (auto simp: Step_def call_stage_simps zpx_2_6_T3_def BUS_READ_def)
  next
    case ry
    let ?ea = "(ea s + ucast (y s)) AND 0xFF"
    let ?t = "s\<lparr>ea := ?ea, host := snd (rd ?ea (host s)), trace := trace s @ [BusRead ?ea],
                value16 := ucast (fst (rd ?ea (host s)))\<rparr>"
    from ry(2) have "kind_of (opcodeCycleFn ?t) = Registers" by simp
    from exec_registers_ea [OF this, of X] assms(1,3) ry(1) show ?thesis
      by (auto simp: Step_def call_stage_simps zpy_2_6_T3_def BUS_READ_def)
  next
    case wx
    let ?t = "s\<lparr>ea := (ea s + ucast (x s)) AND 0xFF\<rparr>"
    from wx assms(2,3) have "kind_of (opcodeCycleFn ?t) = WritesValue"
      "addressModeCycleFn ?t \<noteq> Stage sb_1 T1" "dataBusWriteFn ?t = Some wr"
      by simp_all
    from exec_writes_ea [OF this, of X] assms(3) wx(1) show ?thesis
      by (auto simp: Step_def call_stage_simps zpx_3_5_T3_def)
  next
    case wy
    let ?t = "s\<lparr>ea := (ea s + ucast (y s)) AND 0xFF\<rparr>"
    from wy assms(2,3) have "kind_of (opcodeCycleFn ?t) = WritesValue"
      "addressModeCycleFn ?t \<noteq> Stage sb_1 T1" "dataBusWriteFn ?t = Some wr"
      by simp_all
    from exec_writes_ea [OF this, of X] assms(3) wy(1) show ?thesis
      by (auto simp: Step_def call_stage_simps zpy_3_5_T3_def)
  next
    case rmw
    with assms(1,3) show ?thesis
      by (auto simp: Step_def call_stage_simps zpx_4_3_T3_def BUS_READ_def)
  qed
qed


lemma zpx_4_3_five:
  assumes "dataBusReadFn s = Some rd" and "dataBusWriteFn s = Some wr"
    and "addressModeCycleFn s = Stage zpx_4_3 T1"
    and "kind_of (opcodeCycleFn s) = WritesValue"
  shows "\<exists>s' v w. Steps X 5 s = Some s'
     \<and> trace s' = trace s @ [BusRead (pc s), BusRead (ucast (fst (rd (pc s) (host s)))),
          BusRead (ucast (fst (rd (pc s) (host s)) + x s)),
          BusWrite (ucast (fst (rd (pc s) (host s)) + x s)) v,
          BusWrite (ucast (fst (rd (pc s) (host s)) + x s)) w]"
proof -
  let ?b = "fst (rd (pc s) (host s))"
  let ?zp = "ucast (?b + x s) :: u16"
  let ?h2 = "snd (rd (ucast ?b) (snd (rd (pc s) (host s))))"
  let ?v = "fst (rd ?zp ?h2)"
  let ?s4 = "s\<lparr>host := wr ?zp ?v (snd (rd ?zp ?h2)),
             trace := trace s @ [BusRead (pc s), BusRead (ucast ?b), BusRead ?zp, BusWrite ?zp ?v],
             pc := pc s + 1, ea := ?zp, value16 := ucast ?v,
             addressModeCycleFn := Stage zpx_4_3 T5\<rparr>"
  have up: "(ucast (ucast u :: u16) :: u8) = u" for u :: u8
    by (simp add: ucast_up_ucast_id is_up)
  have four: "Steps X 4 s = Some ?s4"
    using assms(1-3)
    by (simp add: Steps_numeral Step_def call_stage_simps BUS_READ_def BUS_WRITE_def
        zpx_4_3_T1_def zpx_4_3_T2_def zpx_4_3_T3_def zpx_4_3_T4_def zp_wrap up)
  have "kind_of (opcodeCycleFn ?s4) = WritesValue" "addressModeCycleFn ?s4 \<noteq> Stage sb_1 T1"
    "dataBusWriteFn ?s4 = Some wr"
    using assms by simp_all
  from exec_writes_ea [OF this, of X] obtain s' w where
    "ExecuteOpcode X ?s4 = Some s'" "trace s' = trace ?s4 @ [BusWrite (ea ?s4) w]"
    by blast
  then have st: "Step X ?s4 = Some s'"
    and tr: "trace s' = trace s @ [BusRead (pc s), BusRead (ucast ?b), BusRead ?zp,
           BusWrite ?zp ?v, BusWrite ?zp w]"
    by (simp_all add: Step_def call_stage_simps zpx_4_3_T5_def)
  have "Steps X (4 + 1) s = Some s'"
    by (simp only: Steps_then [OF four st])
  then have "Steps X 5 s = Some s'"
    by simp
  with tr show ?thesis by blast
qed


lemma zp_indexed_three:
  assumes "dataBusReadFn s = Some rd" and "dataBusWriteFn s = Some wr"
    and "addressModeCycleFn s = Stage m T1"
    and "(m = zpx_2_6 \<or> m = zpy_2_6) \<and> kind_of (opcodeCycleFn s) = Registers
       \<or> (m = zpx_3_5 \<or> m = zpy_3_5) \<and> kind_of (opcodeCycleFn s) = WritesValue
       \<or> m = zpx_4_3"
  shows "\<exists>s' e. Steps X 3 s = Some s'
     \<and> ea s' = ucast (fst (rd (pc s) (host s))
                       + (if m = zpy_2_6 \<or> m = zpy_3_5 then y s else x s))
     \<and> ea s' < 0x100
     \<and> trace s' = trace s @ [BusRead (pc s), BusRead (ucast (fst (rd (pc s) (host s)))), e]
     \<and> (e = BusRead (ea s') \<or> (\<exists>v. e = BusWrite (ea s') v))"
proof -
  let ?b = "fst (rd (pc s) (host s))"
  let ?s2 = "s\<lparr>host := snd (rd (ucast ?b) (snd (rd (pc s) (host s)))),
             trace := trace s @ [BusRead (pc s), BusRead (ucast ?b)],
             pc := pc s + 1, ea := ucast ?b, addressModeCycleFn := Stage m T3\<rparr>"
  from assms(4) have m: "m = zpx_2_6 \<or> m = zpy_2_6 \<or> m = zpx_3_5 \<or> m = zpy_3_5 \<or> m = zpx_4_3"
    by blast
  have two: "Steps X 2 s = Some ?s2"
    by (rule zp_indexed_T1_T2 [OF assms(1,3) m])
  have "dataBusReadFn ?s2 = Some rd" "dataBusWriteFn ?s2 = Some wr"
    "addressModeCycleFn ?s2 = Stage m T3"
    "(m = zpx_2_6 \<or> m = zpy_2_6) \<and> kind_of (opcodeCycleFn ?s2) = Registers
       \<or> (m = zpx_3_5 \<or> m = zpy_3_5) \<and> kind_of (opcodeCycleFn ?s2) = WritesValue
       \<or> m = zpx_4_3"
    using assms by simp_all
  from zp_indexed_T3 [OF this, of X] obtain s' e where
    st: "Step X ?s2 = Some s'"
    and e: "ea s' = (ucast ?b + ucast (if m = zpy_2_6 \<or> m = zpy_3_5 then y s else x s)) AND 0xFF"
    and tr: "trace s' = trace s @ [BusRead (pc s), BusRead (ucast ?b), e]"
    and ev: "e = BusRead (ea s') \<or> (\<exists>v. e = BusWrite (ea s') v)"
    by auto
  have three: "Steps X 3 s = Some s'"
    using Steps_add [of X 2 1 s] two st by simp
  from e have e': "ea s' = ucast (?b + (if m = zpy_2_6 \<or> m = zpy_3_5 then y s else x s))"
    by (simp only: zp_wrap)
  have "ea s' < 0x100"
    unfolding e' by (rule zp_lt)
  with three e' tr ev show ?thesis by blast
qed

lemma sb_1_T1_writes_value:
  assumes "dataBusReadFn s = Some rd" and "addressModeCycleFn s = Stage sb_1 T1"
    and "kind_of (opcodeCycleFn s) = WritesValue"
  shows "\<exists>s'. Step X s = Some s' \<and> trace s' = trace s @ [BusRead (pc s)]"
proof -
  let ?t = "s\<lparr>host := snd (rd (pc s) (host s)), trace := trace s @ [BusRead (pc s)],
              value16 := ucast (a s)\<rparr>"
  from assms have "kind_of (opcodeCycleFn ?t) = WritesValue"
    "addressModeCycleFn ?t = Stage sb_1 T1"
    by simp_all
  from opc_writes_acc [OF this, of X] assms(1,2) show ?thesis
    by (auto simp: Step_def call_stage_simps sb_1_T1_def BUS_READ_def ExecuteOpcode_def)
qed

subsection \<open>The jammed fetch\<close>



section \<open>The claims\<close>



text \<open>
  C2 fails on the code. \<^verbatim>\<open>rti_5_5_T3\<close> stores the pulled byte into \<open>status\<close> as it is,
  where \<^verbatim>\<open>PLP\<close> ORs \<^verbatim>\<open>FLAG_CONSTANT\<close> into it. A CPU constructed on RAM whose reset vector
  points at an \<open>RTI\<close>, with a zero byte in the stack page at \<open>$01FE\<close>, has \<open>status = $20\<close>
  after ten cycles and \<open>status = $00\<close>, bit 5 clear, after the eleventh; that state is
  reachable.
\<close>

theorem rti_clears_constant_flag:
  "map_option status (Steps sample_cpp 10 rti_demo) = Some 0x20
   \<and> map_option status (Steps sample_cpp 11 rti_demo) = Some 0x00
   \<and> (\<exists>s. Steps sample_cpp 11 rti_demo = Some s \<and> reachable sample_cpp s
          \<and> status s AND FLAG_CONSTANT = 0)"
proof -
  have r: "map_option status (Steps sample_cpp 10 rti_demo) = Some 0x20
       \<and> map_option status (Steps sample_cpp 11 rti_demo) = Some 0x00"
    by (simp add: rti_demo_def power_on_defs run_simps Reset_defs fetch_simps flag_forms
        rti_5_5_T1_def rti_5_5_T2_def rti_5_5_T3_def)
  then obtain s where s: "Steps sample_cpp 11 rti_demo = Some s" "status s = 0"
    by auto
  have "reachable sample_cpp rti_demo"
    unfolding rti_demo_def by (rule power_on_reachable)
  from Steps_reachable [OF this s(1)] s r show ?thesis
    by simp
qed




text \<open>
  C4 (amended). Started at \<^verbatim>\<open>Reset_T0\<close>, seven cycles issue seven bus reads and no write,
  and leave \<open>sp = $FD\<close> whatever \<open>sp\<close> held before: \<^verbatim>\<open>Reset_T0\<close> stores 0 into \<open>sp\<close> and the
  three dummy pushes decrement it. The reads are two at \<open>pc\<close>, then \<open>$0100\<close>, \<open>$01FF\<close>,
  \<open>$01FE\<close>, then the vector at \<open>$FFFC\<close> and \<open>$FFFD\<close>.
\<close>

theorem reset_sequence_reads_only_sp_FD:
  assumes "dataBusReadFn s = Some rd" and "addressModeCycleFn s = Stage Reset_seq T0"
  shows "\<exists>s'. Steps X 7 s = Some s' \<and> sp s' = 0xFD
     \<and> addressModeCycleFn s' = PtrInstructionFetch
     \<and> trace s' = trace s @ [BusRead (pc s), BusRead (pc s), BusRead 0x100, BusRead 0x1FF,
                              BusRead 0x1FE, BusRead 0xFFFC, BusRead 0xFFFD]"
  using assms
  by (simp add: Steps_numeral Step_def call_stage_simps Reset_defs BUS_READ_def ClearB_def
      u8_neg_ucast)

theorem reset_sequence_reads_only_sp_FD_witness:
  "dataBusReadFn reset_demo = Some ram_read
   \<and> addressModeCycleFn reset_demo = Stage Reset_seq T0
   \<and> (\<exists>s'. Steps sample_cpp 7 reset_demo = Some s' \<and> sp s' = 0xFD
          \<and> addressModeCycleFn s' = PtrInstructionFetch
          \<and> trace s' = trace reset_demo @ [BusRead (pc reset_demo), BusRead (pc reset_demo),
                 BusRead 0x100, BusRead 0x1FF, BusRead 0x1FE, BusRead 0xFFFC, BusRead 0xFFFD])"
proof -
  have h1: "dataBusReadFn reset_demo = Some ram_read"
    by (simp add: reset_demo_def power_on_defs)
  have h2: "addressModeCycleFn reset_demo = Stage Reset_seq T0"
    by (simp add: reset_demo_def power_on_defs)
  show ?thesis
    using h1 h2 reset_sequence_reads_only_sp_FD [OF h1 h2, of sample_cpp] by simp
qed

text \<open>
  C4 as stated fails: with \<open>sp = $80\<close> before the sequence, the claim gives \<open>$7D\<close> and the
  code \<open>$FD\<close>.
\<close>

theorem reset_sp_not_prior_minus_3:
  "sp reset_demo = 0x80 \<and> map_option sp (Steps sample_cpp 7 reset_demo) = Some 0xFD
   \<and> map_option sp (Steps sample_cpp 7 reset_demo) \<noteq> Some (sp reset_demo - 3)"
  by (simp add: reset_demo_def power_on_defs run_simps Reset_defs ClearB_def)



text \<open>
  C6 (amended). The cycle that executes \<^verbatim>\<open>PLP\<close> pulls one byte and loads it into \<open>status\<close>
  with U (\<open>$20\<close>) forced to 1; every other bit of \<open>status\<close>, the B flag (\<open>$10\<close>) included,
  becomes the bit of the pulled byte.
\<close>

theorem PLP_loads_pulled_byte:
  assumes "dataBusReadFn s = Some rd" and "addressModeCycleFn s = Stage pl_5_2 T3"
    and "opcodeCycleFn s = OP_PLP"
  shows "\<exists>s'. Step X s = Some s'
     \<and> status s' = fst (rd (0x100 + ucast (sp s + 1)) (host s)) OR FLAG_CONSTANT
     \<and> status s' AND FLAG_BREAK = fst (rd (0x100 + ucast (sp s + 1)) (host s)) AND FLAG_BREAK
     \<and> sp s' = sp s + 1
     \<and> trace s' = trace s @ [BusRead (0x100 + ucast (sp s + 1))]"
  using assms
  by (simp add: Step_def call_stage_simps pl_5_2_T3_def ExecuteOpcode_def call_opcode_def
      PLP_def Pull_def BUS_READ_def plp_bits)

text \<open>Ten cycles after construction \<open>plp_demo\<close> is about to execute the \<open>PLP\<close>.\<close>

theorem PLP_loads_pulled_byte_witness:
  "dataBusReadFn (the (Steps sample_cpp 10 plp_demo)) = Some ram_read
   \<and> addressModeCycleFn (the (Steps sample_cpp 10 plp_demo)) = Stage pl_5_2 T3
   \<and> opcodeCycleFn (the (Steps sample_cpp 10 plp_demo)) = OP_PLP
   \<and> (\<exists>s'. Step sample_cpp (the (Steps sample_cpp 10 plp_demo)) = Some s'
          \<and> sp s' = sp (the (Steps sample_cpp 10 plp_demo)) + 1)"
proof -
  have h: "dataBusReadFn (the (Steps sample_cpp 10 plp_demo)) = Some ram_read"
    "addressModeCycleFn (the (Steps sample_cpp 10 plp_demo)) = Stage pl_5_2 T3"
    "opcodeCycleFn (the (Steps sample_cpp 10 plp_demo)) = OP_PLP"
    by (simp_all add: plp_demo_def power_on_defs run_simps Reset_defs fetch_simps
        pl_5_2_T1_def pl_5_2_T2_def ClearB_def)
  from PLP_loads_pulled_byte [OF h, of sample_cpp] h show ?thesis
    by blast
qed

text \<open>
  C6 as stated fails: before the \<open>PLP\<close> of \<open>plp_demo\<close> executes, \<open>status = $20\<close>, B clear; the
  pulled byte is \<open>$10\<close>; afterwards \<open>status = $30\<close>, B set.
\<close>

theorem plp_changes_break_flag:
  "map_option status (Steps sample_cpp 10 plp_demo) = Some 0x20
   \<and> map_option status (Steps sample_cpp 11 plp_demo) = Some 0x30"
  by (simp add: plp_demo_def power_on_defs run_simps Reset_defs fetch_simps flag_forms
      pl_5_2_T1_def pl_5_2_T2_def pl_5_2_T3_def PLP_def)

text \<open>
  C7 (amended). \<^verbatim>\<open>SHA\<close>, \<^verbatim>\<open>SHX\<close> and \<^verbatim>\<open>SHY\<close>, called in any stage but the accumulator stage,
  make one bus write of \<open>reg AND (H + 1)\<close>, where \<open>reg\<close> is \<open>a AND x\<close>, \<open>x\<close> or \<open>y\<close> and \<open>H\<close> is
  the high byte of \<open>ea\<close>, and the write goes to \<open>ea\<close> itself. The indexed write stages
  before them leave in \<open>ea\<close> the base plus the index with the carry into the high byte,
  page crossing or not: no part of the address is ANDed with the stored value.
\<close>

theorem SHA_SHX_SHY_store_at_ea:
  assumes "dataBusWriteFn s = Some wr" and "addressModeCycleFn s \<noteq> Stage sb_1 T1"
    and "dataBusReadFn t = Some rd"
  shows "SHA s = Some (s\<lparr>host := wr (ea s) (a s AND x s AND (ucast (drop_bit 8 (ea s)) + 1)) (host s),
            trace := trace s @ [BusWrite (ea s) (a s AND x s AND (ucast (drop_bit 8 (ea s)) + 1))]\<rparr>)
    \<and> SHX s = Some (s\<lparr>host := wr (ea s) (x s AND (ucast (drop_bit 8 (ea s)) + 1)) (host s),
            trace := trace s @ [BusWrite (ea s) (x s AND (ucast (drop_bit 8 (ea s)) + 1))]\<rparr>)
    \<and> SHY s = Some (s\<lparr>host := wr (ea s) (y s AND (ucast (drop_bit 8 (ea s)) + 1)) (host s),
            trace := trace s @ [BusWrite (ea s) (y s AND (ucast (drop_bit 8 (ea s)) + 1))]\<rparr>)
    \<and> absx_3_4_T3 t = Some (t\<lparr>host := snd (rd (ea t) (host t)),
            trace := trace t @ [BusRead (ea t)], ea := ea t + ucast (x t),
            addressModeCycleFn := Stage absx_3_4 T4\<rparr>)
    \<and> absy_3_4_T3 t = Some (t\<lparr>host := snd (rd (ea t) (host t)),
            trace := trace t @ [BusRead (ea t)], ea := ea t + ucast (y t),
            addressModeCycleFn := Stage absy_3_4 T4\<rparr>)
    \<and> idy_3_6_T4 t = Some (t\<lparr>ea := ea t + ucast (y t),
            host := snd (rd (ea t + ucast (y t)) (host t)),
            trace := trace t @ [BusRead (ea t + ucast (y t))],
            addressModeCycleFn := Stage idy_3_6 T5\<rparr>)"
  using assms
  by (simp add: SHA_def SHX_def SHY_def WriteValue_def BUS_WRITE_def BUS_READ_def
      absx_3_4_T3_def absy_3_4_T3_def idy_3_6_T4_def store_byte_u8 store_byte_u8_2)

text \<open>
  Fifteen cycles after construction \<open>shx_demo\<close> is about to execute \<open>SHX $12FF,Y\<close> with
  \<open>ea = $1300\<close>; one cycle earlier it is about to index \<open>$12FF\<close> by \<open>y = 1\<close>.
\<close>

theorem SHA_SHX_SHY_store_at_ea_witness:
  "dataBusWriteFn (the (Steps sample_cpp 15 shx_demo)) = Some ram_write
   \<and> addressModeCycleFn (the (Steps sample_cpp 15 shx_demo)) \<noteq> Stage sb_1 T1
   \<and> dataBusReadFn (the (Steps sample_cpp 14 shx_demo)) = Some ram_read
   \<and> ea (the (Steps sample_cpp 15 shx_demo)) = 0x1300
   \<and> x (the (Steps sample_cpp 15 shx_demo)) = 0xFF
   \<and> SHX (the (Steps sample_cpp 15 shx_demo)) =
       Some ((the (Steps sample_cpp 15 shx_demo))
          \<lparr>host := ram_write (ea (the (Steps sample_cpp 15 shx_demo)))
                    (x (the (Steps sample_cpp 15 shx_demo))
                       AND (ucast (drop_bit 8 (ea (the (Steps sample_cpp 15 shx_demo)))) + 1))
                    (host (the (Steps sample_cpp 15 shx_demo))),
            trace := trace (the (Steps sample_cpp 15 shx_demo))
                  @ [BusWrite (ea (the (Steps sample_cpp 15 shx_demo)))
                       (x (the (Steps sample_cpp 15 shx_demo))
                          AND (ucast (drop_bit 8 (ea (the (Steps sample_cpp 15 shx_demo)))) + 1))]\<rparr>)"
proof -
  have h: "dataBusWriteFn (the (Steps sample_cpp 15 shx_demo)) = Some ram_write"
    "addressModeCycleFn (the (Steps sample_cpp 15 shx_demo)) \<noteq> Stage sb_1 T1"
    "dataBusReadFn (the (Steps sample_cpp 14 shx_demo)) = Some ram_read"
    by (simp_all add: shx_demo_def power_on_defs run_simps Reset_defs fetch_simps flag_forms
        imm_2_1_T1_def LDX_def LDY_def absy_3_4_T1_def absy_3_4_T2_def absy_3_4_T3_def)
  have v: "ea (the (Steps sample_cpp 15 shx_demo)) = 0x1300"
    "x (the (Steps sample_cpp 15 shx_demo)) = 0xFF"
    by (simp_all add: shx_demo_def power_on_defs run_simps Reset_defs fetch_simps flag_forms
        imm_2_1_T1_def LDX_def LDY_def absy_3_4_T1_def absy_3_4_T2_def absy_3_4_T3_def)
  from SHA_SHX_SHY_store_at_ea [OF h] h v show ?thesis
    by blast
qed

text \<open>
  C7 as stated fails where the index crosses a page: \<open>SHX $12FF,Y\<close> with \<open>x = $FF\<close> and
  \<open>y = 1\<close> stores \<open>$14\<close>. The claim ANDs the address high byte \<open>$13\<close> with \<open>$14\<close> and has the
  store at \<open>$1000\<close>; the last bus access of the code is the write of \<open>$14\<close> to \<open>$1300\<close>.
\<close>

theorem shx_page_cross_stores_at_ea:
  "map_option trace (Steps sample_cpp 16 shx_demo) =
       Some [BusRead 0, BusRead 0, BusRead 0x100, BusRead 0x1FF, BusRead 0x1FE,
             BusRead 0xFFFC, BusRead 0xFFFD,
             BusRead 0x0200, BusRead 0x0201, BusRead 0x0202, BusRead 0x0203,
             BusRead 0x0204, BusRead 0x0205, BusRead 0x0206, BusRead 0x12FF,
             BusWrite 0x1300 0x14]
   \<and> (0x13 :: u8) AND 0x14 = 0x10"
  by (simp add: shx_demo_def power_on_defs run_simps Reset_defs fetch_simps flag_forms
      imm_2_1_T1_def LDX_def LDY_def absy_3_4_T1_def absy_3_4_T2_def absy_3_4_T3_def
      absy_3_4_T4_def SHX_def WriteValue_def Let_def)

text \<open>
  C8. In the zero page indexed chains (\<^verbatim>\<open>zpx_2_6\<close> and \<^verbatim>\<open>zpy_2_6\<close> read, \<^verbatim>\<open>zpx_3_5\<close> and
  \<^verbatim>\<open>zpy_3_5\<close> write, \<^verbatim>\<open>zpx_4_3\<close> read-modify-write) the three cycles after the fetch read the
  operand byte at \<open>pc\<close>, read at the un-indexed zero page address, and then access the
  effective address, which is the 8-bit sum of the operand byte and the index register,
  zero-extended: it is below \<open>$0100\<close>. In the read-modify-write chain the two writes that
  follow go to the same address.
\<close>

theorem zero_page_indexed_wraps:
  assumes "dataBusReadFn s = Some rd" and "dataBusWriteFn s = Some wr"
    and "addressModeCycleFn s = Stage m T1"
    and "(m = zpx_2_6 \<or> m = zpy_2_6) \<and> kind_of (opcodeCycleFn s) = Registers
       \<or> (m = zpx_3_5 \<or> m = zpy_3_5 \<or> m = zpx_4_3) \<and> kind_of (opcodeCycleFn s) = WritesValue"
  shows "(\<exists>s' e. Steps X 3 s = Some s'
       \<and> ea s' = ucast (fst (rd (pc s) (host s))
                         + (if m = zpy_2_6 \<or> m = zpy_3_5 then y s else x s))
       \<and> ea s' < 0x100
       \<and> trace s' = trace s @ [BusRead (pc s), BusRead (ucast (fst (rd (pc s) (host s)))), e]
       \<and> (e = BusRead (ea s') \<or> (\<exists>v. e = BusWrite (ea s') v)))
     \<and> (if m = zpx_4_3
        then \<exists>s' v w. Steps X 5 s = Some s'
           \<and> trace s' = trace s @ [BusRead (pc s), BusRead (ucast (fst (rd (pc s) (host s)))),
                BusRead (ucast (fst (rd (pc s) (host s)) + x s)),
                BusWrite (ucast (fst (rd (pc s) (host s)) + x s)) v,
                BusWrite (ucast (fst (rd (pc s) (host s)) + x s)) w]
        else True)"
proof -
  from assms(4) have k: "(m = zpx_2_6 \<or> m = zpy_2_6) \<and> kind_of (opcodeCycleFn s) = Registers
       \<or> (m = zpx_3_5 \<or> m = zpy_3_5) \<and> kind_of (opcodeCycleFn s) = WritesValue
       \<or> m = zpx_4_3"
    by blast
  have three: "\<exists>s' e. Steps X 3 s = Some s'
       \<and> ea s' = ucast (fst (rd (pc s) (host s))
                         + (if m = zpy_2_6 \<or> m = zpy_3_5 then y s else x s))
       \<and> ea s' < 0x100
       \<and> trace s' = trace s @ [BusRead (pc s), BusRead (ucast (fst (rd (pc s) (host s)))), e]
       \<and> (e = BusRead (ea s') \<or> (\<exists>v. e = BusWrite (ea s') v))"
    by (rule zp_indexed_three [OF assms(1-3) k])
  show ?thesis
  proof (cases "m = zpx_4_3")
    case True
    with assms(4) have "kind_of (opcodeCycleFn s) = WritesValue"
      by auto
    from zpx_4_3_five [OF assms(1,2) assms(3) [unfolded True] this, of X] three True
    show ?thesis by simp
  next
    case False
    with three show ?thesis by simp
  qed
qed

text \<open>
  Ten cycles after construction \<open>inc_demo\<close> has fetched \<open>INC $FF,X\<close> with \<open>x = 1\<close>. The whole run
  shows the instance of the claim: after the dummy read at \<open>$00FF\<close> the value is read at
  \<open>$0000\<close> and written back, unchanged and then incremented, to \<open>$0000\<close>; nothing touches
  \<open>$0100\<close>.
\<close>

theorem zero_page_indexed_wraps_witness:
  "dataBusReadFn (the (Steps sample_cpp 10 inc_demo)) = Some ram_read
   \<and> dataBusWriteFn (the (Steps sample_cpp 10 inc_demo)) = Some ram_write
   \<and> addressModeCycleFn (the (Steps sample_cpp 10 inc_demo)) = Stage zpx_4_3 T1
   \<and> kind_of (opcodeCycleFn (the (Steps sample_cpp 10 inc_demo))) = WritesValue
   \<and> x (the (Steps sample_cpp 10 inc_demo)) = 1
   \<and> (\<exists>s'. Steps sample_cpp 3 (the (Steps sample_cpp 10 inc_demo)) = Some s' \<and> ea s' < 0x100)
   \<and> map_option trace (Steps sample_cpp 15 inc_demo) =
       Some [BusRead 0, BusRead 0, BusRead 0x100, BusRead 0x1FF, BusRead 0x1FE,
             BusRead 0xFFFC, BusRead 0xFFFD,
             BusRead 0x0200, BusRead 0x0201, BusRead 0x0202, BusRead 0x0203,
             BusRead 0x00FF, BusRead 0x0000, BusWrite 0x0000 0x41, BusWrite 0x0000 0x42]"
proof -
  have h: "dataBusReadFn (the (Steps sample_cpp 10 inc_demo)) = Some ram_read"
    "dataBusWriteFn (the (Steps sample_cpp 10 inc_demo)) = Some ram_write"
    "addressModeCycleFn (the (Steps sample_cpp 10 inc_demo)) = Stage zpx_4_3 T1"
    by (simp_all add: inc_demo_def power_on_defs run_simps Reset_defs fetch_simps flag_forms
        imm_2_1_T1_def LDX_def)
  have k: "kind_of (opcodeCycleFn (the (Steps sample_cpp 10 inc_demo))) = WritesValue"
    by (simp add: inc_demo_def power_on_defs run_simps Reset_defs fetch_simps flag_forms
        imm_2_1_T1_def LDX_def kind_of_def)
  then have k': "(zpx_4_3 = zpx_2_6 \<or> zpx_4_3 = zpy_2_6)
        \<and> kind_of (opcodeCycleFn (the (Steps sample_cpp 10 inc_demo))) = Registers
       \<or> (zpx_4_3 = zpx_3_5 \<or> zpx_4_3 = zpy_3_5 \<or> zpx_4_3 = zpx_4_3)
        \<and> kind_of (opcodeCycleFn (the (Steps sample_cpp 10 inc_demo))) = WritesValue"
    by simp
  have v: "x (the (Steps sample_cpp 10 inc_demo)) = 1"
    by (simp add: inc_demo_def power_on_defs run_simps Reset_defs fetch_simps flag_forms
        imm_2_1_T1_def LDX_def)
  have r: "map_option trace (Steps sample_cpp 15 inc_demo) =
       Some [BusRead 0, BusRead 0, BusRead 0x100, BusRead 0x1FF, BusRead 0x1FE,
             BusRead 0xFFFC, BusRead 0xFFFD,
             BusRead 0x0200, BusRead 0x0201, BusRead 0x0202, BusRead 0x0203,
             BusRead 0x00FF, BusRead 0x0000, BusWrite 0x0000 0x41, BusWrite 0x0000 0x42]"
    by (simp add: inc_demo_def power_on_defs run_simps Reset_defs fetch_simps flag_forms
        imm_2_1_T1_def LDX_def zpx_4_3_T1_def zpx_4_3_T2_def zpx_4_3_T3_def zpx_4_3_T4_def
        zpx_4_3_T5_def INC_def WriteValue_def Let_def)
  from zero_page_indexed_wraps [OF h k', of sample_cpp] h k v r show ?thesis
    by blast
qed

text \<open>
  C9 (amended). Construction and \<^verbatim>\<open>SetBusFunctions\<close> check nothing and never fail: they
  store the two callbacks as given, null or not, set \<open>status\<close> to \<^verbatim>\<open>FLAG_CONSTANT\<close> and
  schedule the reset sequence.
\<close>

theorem construction_never_rejects:
  "M6502_ctor uninit rd wr =
     Some (uninit\<lparr>dataBusReadFn := rd, dataBusWriteFn := wr, status := FLAG_CONSTANT,
                   addressModeCycleFn := Stage Reset_seq T0\<rparr>)"
  by (simp add: M6502_ctor_def SetBusFunctions_def Reset_def)

text \<open>
  C9 as stated fails: construction with two null callbacks is not rejected. It returns an
  object that holds the null read callback and is set to start the reset sequence; the
  null pointer is met only by the first \<^verbatim>\<open>Step\<close>, which has no result.
\<close>

theorem null_callbacks_not_rejected:
  "M6502_ctor (raw_storage (load [])) None None \<noteq> None
   \<and> map_option dataBusReadFn (M6502_ctor (raw_storage (load [])) None None) = Some None
   \<and> map_option addressModeCycleFn (M6502_ctor (raw_storage (load [])) None None)
       = Some (Stage Reset_seq T0)
   \<and> Option.bind (M6502_ctor (raw_storage (load [])) None None) (Step sample_cpp) = None"
  by (simp add: M6502_ctor_def SetBusFunctions_def Reset_def raw_storage_def
      Step_def call_stage_simps Reset_T0_def BUS_READ_def)

text \<open>
  C10. \<^verbatim>\<open>WriteValue\<close> stores the byte into \<open>a\<close> and touches no bus when the cursor is
  \<^verbatim>\<open>sb_1_T1\<close>; with any other cursor it makes one bus write of the byte to \<open>ea\<close> and leaves
  \<open>a\<close> alone. For every opcode function that calls it (\<open>kind_of \<dots> = WritesValue\<close>): the
  accumulator cycle \<^verbatim>\<open>sb_1_T1\<close> as a whole has the dummy read of \<open>pc\<close> as its only bus access,
  and in any other stage the opcode function makes one bus write, to \<open>ea\<close>.
\<close>

theorem WriteValue_accumulator_or_bus:
  assumes "dataBusReadFn s = Some rd" and "dataBusWriteFn s = Some wr"
    and "kind_of (opcodeCycleFn s) = WritesValue"
  shows "WriteValue b s =
      (if addressModeCycleFn s = Stage sb_1 T1 then Some (s\<lparr>a := b\<rparr>)
       else Some (s\<lparr>host := wr (ea s) b (host s), trace := trace s @ [BusWrite (ea s) b]\<rparr>))
    \<and> (if addressModeCycleFn s = Stage sb_1 T1
       then \<exists>s'. Step X s = Some s' \<and> trace s' = trace s @ [BusRead (pc s)]
       else \<exists>s' v. call_opcode X (opcodeCycleFn s) s = Some s'
              \<and> trace s' = trace s @ [BusWrite (ea s) v])"
proof (cases "addressModeCycleFn s = Stage sb_1 T1")
  case True
  with sb_1_T1_writes_value [OF assms(1) True assms(3), of X] show ?thesis
    by (simp add: WriteValue_def)
next
  case False
  with opc_writes_bus [OF assms(3) False assms(2), of X] assms(2) show ?thesis
    by (auto simp: WriteValue_def BUS_WRITE_def)
qed

text \<open>
  Ten cycles after construction \<open>asl_demo\<close> has fetched \<open>ASL A\<close> with \<open>a = $81\<close>; the cycle that
  follows reads at \<open>pc = $0203\<close>, writes nothing and leaves \<open>a = $02\<close>.
\<close>

theorem WriteValue_accumulator_or_bus_witness:
  "dataBusReadFn (the (Steps sample_cpp 10 asl_demo)) = Some ram_read
   \<and> dataBusWriteFn (the (Steps sample_cpp 10 asl_demo)) = Some ram_write
   \<and> kind_of (opcodeCycleFn (the (Steps sample_cpp 10 asl_demo))) = WritesValue
   \<and> addressModeCycleFn (the (Steps sample_cpp 10 asl_demo)) = Stage sb_1 T1
   \<and> WriteValue 0x02 (the (Steps sample_cpp 10 asl_demo))
       = Some ((the (Steps sample_cpp 10 asl_demo))\<lparr>a := 0x02\<rparr>)
   \<and> map_option a (Steps sample_cpp 11 asl_demo) = Some 0x02
   \<and> map_option trace (Steps sample_cpp 11 asl_demo) =
       Some [BusRead 0, BusRead 0, BusRead 0x100, BusRead 0x1FF, BusRead 0x1FE,
             BusRead 0xFFFC, BusRead 0xFFFD,
             BusRead 0x0200, BusRead 0x0201, BusRead 0x0202, BusRead 0x0203]"
proof -
  have h: "dataBusReadFn (the (Steps sample_cpp 10 asl_demo)) = Some ram_read"
    "dataBusWriteFn (the (Steps sample_cpp 10 asl_demo)) = Some ram_write"
    "kind_of (opcodeCycleFn (the (Steps sample_cpp 10 asl_demo))) = WritesValue"
    by (simp_all add: asl_demo_def power_on_defs run_simps Reset_defs fetch_simps flag_forms
        imm_2_1_T1_def LDA_def kind_of_def)
  have c: "addressModeCycleFn (the (Steps sample_cpp 10 asl_demo)) = Stage sb_1 T1"
    by (simp add: asl_demo_def power_on_defs run_simps Reset_defs fetch_simps flag_forms
        imm_2_1_T1_def LDA_def)
  have r: "map_option a (Steps sample_cpp 11 asl_demo) = Some 0x02"
    "map_option trace (Steps sample_cpp 11 asl_demo) =
       Some [BusRead 0, BusRead 0, BusRead 0x100, BusRead 0x1FF, BusRead 0x1FE,
             BusRead 0xFFFC, BusRead 0xFFFD,
             BusRead 0x0200, BusRead 0x0201, BusRead 0x0202, BusRead 0x0203]"
    by (simp_all add: asl_demo_def power_on_defs run_simps Reset_defs fetch_simps flag_forms
        imm_2_1_T1_def LDA_def sb_1_T1_def ASL_def WriteValue_def Let_def)
  from WriteValue_accumulator_or_bus [where b = "0x02" and X = sample_cpp, OF h] h c r show ?thesis
    by simp
qed

end
